theory Spec2Isabelle
  imports Complex_Main "HOL-Library.Sublist" "HOL-Library.AList"
begin

section \<open>Numbers\<close>

text \<open>
  The TypeScript type \<^verbatim>\<open>number\<close>.  A finite value other than the negative zero is
  an exact real, \<open>Fin 0\<close> being the positive zero; the negative zero, the two infinities
  and \<^verbatim>\<open>NaN\<close> are values of their own.  The operations follow IEEE 754 on these
  values: the sign of a zero result, the division by either zero, \<^verbatim>\<open>Infinity * 0\<close>.
  Rounding and overflow of finite results are not modelled: on finite operands the
  operations are the exact ones.  The statements below are therefore written with the
  expressions of the program, and where a statement depends on the value of an
  expression it says so.
\<close>

datatype number = Fin real | NZero | PInf | NInf | NaN

text \<open>The zero of the given sign: \<open>True\<close> for the negative one.\<close>

definition signedZero :: "bool \<Rightarrow> number" where
  "signedZero negative = (if negative then NZero else Fin 0)"

instantiation number :: "{plus, uminus, minus, times, inverse, ord}"
begin

text \<open>A sum that is zero is the negative zero only when both terms are.\<close>

fun plus_number :: "number \<Rightarrow> number \<Rightarrow> number" where
  "plus_number NaN _ = NaN"
| "plus_number _ NaN = NaN"
| "plus_number (Fin a) (Fin b) = Fin (a + b)"
| "plus_number (Fin a) NZero = Fin a"
| "plus_number NZero (Fin b) = Fin b"
| "plus_number NZero NZero = NZero"
| "plus_number PInf NInf = NaN"
| "plus_number NInf PInf = NaN"
| "plus_number PInf _ = PInf"
| "plus_number _ PInf = PInf"
| "plus_number NInf _ = NInf"
| "plus_number _ NInf = NInf"

fun uminus_number :: "number \<Rightarrow> number" where
  "uminus_number (Fin a) = (if a = 0 then NZero else Fin (- a))"
| "uminus_number NZero = Fin 0"
| "uminus_number PInf = NInf"
| "uminus_number NInf = PInf"
| "uminus_number NaN = NaN"

definition minus_number :: "number \<Rightarrow> number \<Rightarrow> number" where
  "minus_number a b = a + (- b)"

text \<open>
  The sign of a product is the exclusive or of the signs of the factors;
  \<^verbatim>\<open>Infinity * 0\<close> is \<^verbatim>\<open>NaN\<close>.
\<close>

fun times_number :: "number \<Rightarrow> number \<Rightarrow> number" where
  "times_number NaN _ = NaN"
| "times_number _ NaN = NaN"
| "times_number (Fin a) (Fin b) =
     (if a * b = 0 then signedZero ((a < 0) \<noteq> (b < 0)) else Fin (a * b))"
| "times_number (Fin a) NZero = signedZero (\<not> a < 0)"
| "times_number NZero (Fin b) = signedZero (\<not> b < 0)"
| "times_number NZero NZero = Fin 0"
| "times_number PInf (Fin b) = (if b = 0 then NaN else if 0 < b then PInf else NInf)"
| "times_number NInf (Fin b) = (if b = 0 then NaN else if 0 < b then NInf else PInf)"
| "times_number (Fin a) PInf = (if a = 0 then NaN else if 0 < a then PInf else NInf)"
| "times_number (Fin a) NInf = (if a = 0 then NaN else if 0 < a then NInf else PInf)"
| "times_number PInf NZero = NaN"
| "times_number NInf NZero = NaN"
| "times_number NZero PInf = NaN"
| "times_number NZero NInf = NaN"
| "times_number PInf PInf = PInf"
| "times_number NInf NInf = PInf"
| "times_number PInf NInf = NInf"
| "times_number NInf PInf = NInf"

text \<open>
  Division never fails in the program.  A finite value other than zero divided by a
  zero is an infinity whose sign is the exclusive or of the two signs, a zero divided by
  a zero is \<^verbatim>\<open>NaN\<close>, and a quotient that is zero has the exclusive or of the signs.
\<close>

fun divide_number :: "number \<Rightarrow> number \<Rightarrow> number" where
  "divide_number NaN _ = NaN"
| "divide_number _ NaN = NaN"
| "divide_number (Fin a) (Fin b) =
     (if b = 0 then (if a = 0 then NaN else if 0 < a then PInf else NInf)
      else if a = 0 then signedZero (b < 0)
      else Fin (a / b))"
| "divide_number (Fin a) NZero = (if a = 0 then NaN else if 0 < a then NInf else PInf)"
| "divide_number NZero (Fin b) = (if b = 0 then NaN else signedZero (\<not> b < 0))"
| "divide_number NZero NZero = NaN"
| "divide_number (Fin a) PInf = signedZero (a < 0)"
| "divide_number (Fin a) NInf = signedZero (\<not> a < 0)"
| "divide_number NZero PInf = NZero"
| "divide_number NZero NInf = Fin 0"
| "divide_number PInf (Fin b) = (if b < 0 then NInf else PInf)"
| "divide_number NInf (Fin b) = (if b < 0 then PInf else NInf)"
| "divide_number PInf NZero = NInf"
| "divide_number NInf NZero = PInf"
| "divide_number PInf PInf = NaN"
| "divide_number PInf NInf = NaN"
| "divide_number NInf PInf = NaN"
| "divide_number NInf NInf = NaN"

definition inverse_number :: "number \<Rightarrow> number" where
  "inverse_number a = divide (Fin 1) a"

text \<open>
  The comparisons \<^verbatim>\<open><=\<close> and \<^verbatim>\<open><\<close>: false as soon as one side is \<^verbatim>\<open>NaN\<close>; the two
  zeros compare equal.
\<close>

fun less_eq_number :: "number \<Rightarrow> number \<Rightarrow> bool" where
  "less_eq_number NaN _ = False"
| "less_eq_number _ NaN = False"
| "less_eq_number (Fin a) (Fin b) = (a \<le> b)"
| "less_eq_number (Fin a) NZero = (a \<le> 0)"
| "less_eq_number NZero (Fin b) = (0 \<le> b)"
| "less_eq_number NZero NZero = True"
| "less_eq_number NInf _ = True"
| "less_eq_number _ PInf = True"
| "less_eq_number PInf _ = False"
| "less_eq_number _ NInf = False"

fun less_number :: "number \<Rightarrow> number \<Rightarrow> bool" where
  "less_number NaN _ = False"
| "less_number _ NaN = False"
| "less_number (Fin a) (Fin b) = (a < b)"
| "less_number (Fin a) NZero = (a < 0)"
| "less_number NZero (Fin b) = (0 < b)"
| "less_number NZero NZero = False"
| "less_number PInf _ = False"
| "less_number _ NInf = False"
| "less_number NInf _ = True"
| "less_number _ PInf = True"

instance ..

end

text \<open>
  \<^verbatim>\<open>Math.min\<close> and \<^verbatim>\<open>Math.max\<close> of two arguments: \<^verbatim>\<open>NaN\<close> as soon as one is, and
  otherwise one of the two arguments, the negative zero being below the positive one.
\<close>

fun Math_min :: "number \<Rightarrow> number \<Rightarrow> number" where
  "Math_min NaN _ = NaN"
| "Math_min _ NaN = NaN"
| "Math_min (Fin a) (Fin b) = (if a \<le> b then Fin a else Fin b)"
| "Math_min (Fin a) NZero = (if a < 0 then Fin a else NZero)"
| "Math_min NZero (Fin b) = (if b < 0 then Fin b else NZero)"
| "Math_min NZero NZero = NZero"
| "Math_min NInf _ = NInf"
| "Math_min _ NInf = NInf"
| "Math_min PInf b = b"
| "Math_min a PInf = a"

fun Math_max :: "number \<Rightarrow> number \<Rightarrow> number" where
  "Math_max NaN _ = NaN"
| "Math_max _ NaN = NaN"
| "Math_max (Fin a) (Fin b) = (if b \<le> a then Fin a else Fin b)"
| "Math_max (Fin a) NZero = (if 0 \<le> a then Fin a else NZero)"
| "Math_max NZero (Fin b) = (if 0 \<le> b then Fin b else NZero)"
| "Math_max NZero NZero = NZero"
| "Math_max PInf _ = PInf"
| "Math_max _ PInf = PInf"
| "Math_max NInf b = b"
| "Math_max a NInf = a"

text \<open>\<^verbatim>\<open>Number.isFinite\<close>: neither an infinity nor \<^verbatim>\<open>NaN\<close>.\<close>

fun isFinite :: "number \<Rightarrow> bool" where
  "isFinite (Fin _) = True"
| "isFinite NZero = True"
| "isFinite _ = False"

section \<open>Data model\<close>

text \<open>The constant \<^verbatim>\<open>MAX_BOUNDARY_VIOLATION_PERCENT = 0.03\<close>.\<close>

definition MAX_BOUNDARY_VIOLATION_PERCENT :: number where
  "MAX_BOUNDARY_VIOLATION_PERCENT = Fin (3 / 100)"

text \<open>The object type \<^verbatim>\<open>{x, y, w, h}\<close> of \<^verbatim>\<open>coords\<close> and \<^verbatim>\<open>bounds\<close>.\<close>

record Rect =
  x :: number
  y :: number
  w :: number
  h :: number

text \<open>A rect all of whose four numbers are finite.\<close>

definition finRect :: "real \<Rightarrow> real \<Rightarrow> real \<Rightarrow> real \<Rightarrow> Rect" where
  "finRect a b c d = \<lparr>x = Fin a, y = Fin b, w = Fin c, h = Fin d\<rparr>"

datatype LayerType = Layer | Group

record Transform =
  scaleX :: number
  scaleY :: number
  offsetX :: number
  offsetY :: number

text \<open>
  \<^verbatim>\<open>SerializableLayer\<close>, and \<^verbatim>\<open>TransformedLayer\<close> which extends it by the field
  \<^verbatim>\<open>transform\<close> and whose children are transformed layers: one datatype with the
  extension as its parameter.  The optional field \<^verbatim>\<open>children\<close> is an option.
\<close>

datatype 'e LayerNode = LayerNode
  (id': string)
  (name: string)
  (type': LayerType)
  (children: "'e LayerNode list option")
  (isVisible: bool)
  (opacity: number)
  (coords: Rect)
  (transform: 'e)

type_synonym SerializableLayer = "unit LayerNode"
type_synonym TransformedLayer = "Transform LayerNode"

record LayerOverride =
  layerId :: string
  xOffset :: number
  yOffset :: number
  individualScale :: number

datatype Anchor = TOP | CENTER | BOTTOM | STRETCH

record SafetyReport =
  allowedBleed :: bool
  violationCount :: number

record LayoutStrategy =
  suggestedScale :: number
  anchor :: Anchor
  generativePrompt :: string
  reasoning :: string
  overrides :: "LayerOverride list option"
  safetyReport :: "SafetyReport option"

section \<open>The recursive transformation engine\<close>

text \<open>
  \<^verbatim>\<open>transformLayers\<close> is a closure; the variables of \<^verbatim>\<open>RemapperNode\<close> that it
  reads are its environment.
\<close>

record RemapEnv =
  sourceRect :: Rect
  targetRect :: Rect
  scale :: number
  anchorX :: number
  anchorY :: number
  strategy :: "LayoutStrategy option"

text \<open>The local variables of the body of \<^verbatim>\<open>transformLayers\<close>, in its order.\<close>

definition relX :: "RemapEnv \<Rightarrow> 'e LayerNode \<Rightarrow> number" where
  "relX env layer = (x (coords layer) - x (sourceRect env)) / w (sourceRect env)"

definition relY :: "RemapEnv \<Rightarrow> 'e LayerNode \<Rightarrow> number" where
  "relY env layer = (y (coords layer) - y (sourceRect env)) / h (sourceRect env)"

definition geomX :: "RemapEnv \<Rightarrow> 'e LayerNode \<Rightarrow> number" where
  "geomX env layer = anchorX env + (relX env layer * (w (sourceRect env) * scale env))"

definition geomY :: "RemapEnv \<Rightarrow> 'e LayerNode \<Rightarrow> number" where
  "geomY env layer = anchorY env + (relY env layer * (h (sourceRect env) * scale env))"

text \<open>\<^verbatim>\<open>strategy?.overrides?.find(o => o.layerId === layer.id)\<close>\<close>

definition override :: "RemapEnv \<Rightarrow> 'e LayerNode \<Rightarrow> LayerOverride option" where
  "override env layer =
     (case strategy env of
        None \<Rightarrow> None
      | Some s \<Rightarrow>
          (case overrides s of
             None \<Rightarrow> None
           | Some ovs \<Rightarrow> find (\<lambda>ov. layerId ov = id' layer) ovs))"

definition aiX :: "RemapEnv \<Rightarrow> LayerOverride \<Rightarrow> number" where
  "aiX env ov = x (targetRect env) + xOffset ov"

definition aiY :: "RemapEnv \<Rightarrow> LayerOverride \<Rightarrow> number" where
  "aiY env ov = y (targetRect env) + yOffset ov"

text \<open>\<^verbatim>\<open>finalX\<close> at the end of the body (it is assigned at steps 2 and 3 only).\<close>

definition finalX :: "RemapEnv \<Rightarrow> 'e LayerNode \<Rightarrow> number \<Rightarrow> number" where
  "finalX env layer parentDeltaX =
     (case override env layer of
        None \<Rightarrow> geomX env layer + parentDeltaX
      | Some ov \<Rightarrow> aiX env ov)"

text \<open>\<^verbatim>\<open>finalY\<close> after steps 2 and 3, before the clamp of step 4.\<close>

definition finalY_unclamped :: "RemapEnv \<Rightarrow> 'e LayerNode \<Rightarrow> number \<Rightarrow> number" where
  "finalY_unclamped env layer parentDeltaY =
     (case override env layer of
        None \<Rightarrow> geomY env layer + parentDeltaY
      | Some ov \<Rightarrow> aiY env ov)"

definition currentDeltaX :: "RemapEnv \<Rightarrow> 'e LayerNode \<Rightarrow> number \<Rightarrow> number" where
  "currentDeltaX env layer parentDeltaX =
     (case override env layer of
        None \<Rightarrow> parentDeltaX
      | Some ov \<Rightarrow> aiX env ov - geomX env layer)"

definition currentDeltaY :: "RemapEnv \<Rightarrow> 'e LayerNode \<Rightarrow> number \<Rightarrow> number" where
  "currentDeltaY env layer parentDeltaY =
     (case override env layer of
        None \<Rightarrow> parentDeltaY
      | Some ov \<Rightarrow> aiY env ov - geomY env layer)"

definition layerScaleX :: "RemapEnv \<Rightarrow> 'e LayerNode \<Rightarrow> number" where
  "layerScaleX env layer =
     (case override env layer of
        None \<Rightarrow> scale env
      | Some ov \<Rightarrow> scale env * individualScale ov)"

definition layerScaleY :: "RemapEnv \<Rightarrow> 'e LayerNode \<Rightarrow> number" where
  "layerScaleY env layer =
     (case override env layer of
        None \<Rightarrow> scale env
      | Some ov \<Rightarrow> scale env * individualScale ov)"

definition bleedY :: "RemapEnv \<Rightarrow> number" where
  "bleedY env = h (targetRect env) * MAX_BOUNDARY_VIOLATION_PERCENT"

definition minY :: "RemapEnv \<Rightarrow> number" where
  "minY env = y (targetRect env) - bleedY env"

definition maxY :: "RemapEnv \<Rightarrow> number" where
  "maxY env = y (targetRect env) + h (targetRect env) + bleedY env"

text \<open>\<^verbatim>\<open>finalY = Math.max(minY, Math.min(finalY, maxY))\<close>\<close>

definition finalY :: "RemapEnv \<Rightarrow> 'e LayerNode \<Rightarrow> number \<Rightarrow> number" where
  "finalY env layer parentDeltaY =
     Math_max (minY env) (Math_min (finalY_unclamped env layer parentDeltaY) (maxY env))"

definition newW :: "RemapEnv \<Rightarrow> 'e LayerNode \<Rightarrow> number" where
  "newW env layer = w (coords layer) * layerScaleX env layer"

definition newH :: "RemapEnv \<Rightarrow> 'e LayerNode \<Rightarrow> number" where
  "newH env layer = h (coords layer) * layerScaleY env layer"

text \<open>
  The function itself: a \<^verbatim>\<open>map\<close> over the layers that spreads the layer, replaces
  \<^verbatim>\<open>coords\<close>, adds \<^verbatim>\<open>transform\<close>, and transforms the children, when there are any,
  with the current delta.
\<close>

function transformLayers ::
  "RemapEnv \<Rightarrow> SerializableLayer list \<Rightarrow> number \<Rightarrow> number \<Rightarrow> TransformedLayer list" where
  "transformLayers env layers parentDeltaX parentDeltaY =
     map (\<lambda>layer.
        LayerNode
          (id' layer)
          (LayerNode.name layer)
          (type' layer)
          (case children layer of
             None \<Rightarrow> None
           | Some cs \<Rightarrow>
               Some (transformLayers env cs
                 (currentDeltaX env layer parentDeltaX)
                 (currentDeltaY env layer parentDeltaY)))
          (isVisible layer)
          (opacity layer)
          \<lparr>x = finalX env layer parentDeltaX,
           y = finalY env layer parentDeltaY,
           w = newW env layer,
           h = newH env layer\<rparr>
          \<lparr>scaleX = layerScaleX env layer,
           scaleY = layerScaleY env layer,
           offsetX = finalX env layer parentDeltaX,
           offsetY = finalY env layer parentDeltaY\<rparr>)
       layers"
  by pat_completeness auto
termination
proof (relation "measure (\<lambda>(env, layers, dx, dy). size_list size layers)")
  show "wf (measure (\<lambda>(env :: RemapEnv, layers :: SerializableLayer list,
          dx :: number, dy :: number). size_list size layers))"
    by simp
next
  fix env :: RemapEnv and layers :: "SerializableLayer list"
    and parentDeltaX parentDeltaY :: number and layer cs
  assume a: "layer \<in> set layers" and b: "children layer = Some cs"
  have "size_list size cs < size layer" using b by (cases layer) simp
  also have "size layer \<le> size_list size layers" using a by (simp add: size_list_estimation')
  finally show "((env, cs, currentDeltaX env layer parentDeltaX,
                 currentDeltaY env layer parentDeltaY),
                env, layers, parentDeltaX, parentDeltaY)
      \<in> measure (\<lambda>(env, layers, dx, dy). size_list size layers)"
    by simp
qed

declare transformLayers.simps [simp del]

section \<open>The transform of one remap instance\<close>

text \<open>
  Step 3 of the loop of \<^verbatim>\<open>RemapperNode\<close>, ``Compute Payload''.  The default geometry,
  then the strategy when the source carries one; the result is the environment of
  \<^verbatim>\<open>transformLayers\<close>.  No branch of the source raises.
\<close>

definition ratioX :: "Rect \<Rightarrow> Rect \<Rightarrow> number" where
  "ratioX srcRect tgtRect = w tgtRect / w srcRect"

definition ratioY :: "Rect \<Rightarrow> Rect \<Rightarrow> number" where
  "ratioY srcRect tgtRect = h tgtRect / h srcRect"

definition resolveEnv :: "Rect \<Rightarrow> Rect \<Rightarrow> LayoutStrategy option \<Rightarrow> RemapEnv" where
  "resolveEnv srcRect tgtRect strat =
     (case strat of
        Some s \<Rightarrow>
          (let scale' = suggestedScale s;
               scaledW = w srcRect * scale';
               scaledH = h srcRect * scale'
           in \<lparr>sourceRect = srcRect, targetRect = tgtRect, scale = scale',
               anchorX = x tgtRect + (w tgtRect - scaledW) / Fin 2,
               anchorY =
                 (if anchor s = TOP then y tgtRect
                  else if anchor s = BOTTOM then y tgtRect + (h tgtRect - scaledH)
                  else y tgtRect + (h tgtRect - scaledH) / Fin 2),
               strategy = strat\<rparr>)
      | None \<Rightarrow>
          (let scale' = Math_min (ratioX srcRect tgtRect) (ratioY srcRect tgtRect);
               scaledW = w srcRect * scale';
               scaledH = h srcRect * scale'
           in \<lparr>sourceRect = srcRect, targetRect = tgtRect, scale = scale',
               anchorX = x tgtRect + (w tgtRect - scaledW) / Fin 2,
               anchorY = y tgtRect + (h tgtRect - scaledH) / Fin 2,
               strategy = strat\<rparr>))"

datatype PayloadStatus = success | error | idle

record Size =
  w :: number
  h :: number

record Metrics =
  source :: Size
  target :: Size

record TransformedPayload =
  status :: PayloadStatus
  sourceNodeId :: string
  sourceContainer :: string
  targetContainer :: string
  layers :: "TransformedLayer list"
  scaleFactor :: number
  metrics :: Metrics

text \<open>
  \<^verbatim>\<open>sourceData\<close> and \<^verbatim>\<open>targetData\<close> when their flag \<^verbatim>\<open>ready\<close> is set; an instance
  that is not ready is \<open>None\<close>.
\<close>

record SourceData =
  name :: string
  nodeId :: string
  handleId :: string
  layers :: "SerializableLayer list"
  originalBounds :: Rect
  aiStrategy :: "LayoutStrategy option"

record TargetData =
  name :: string
  bounds :: Rect

definition computePayload ::
  "SourceData option \<Rightarrow> TargetData option \<Rightarrow> TransformedPayload option" where
  "computePayload sourceData targetData =
     (case sourceData of
        None \<Rightarrow> None
      | Some src \<Rightarrow>
          (case targetData of
             None \<Rightarrow> None
           | Some tgt \<Rightarrow>
               (let env = resolveEnv (originalBounds src) (TargetData.bounds tgt) (aiStrategy src)
                in Some
                  \<lparr>status = success,
                   sourceNodeId = nodeId src,
                   sourceContainer = SourceData.name src,
                   targetContainer = TargetData.name tgt,
                   layers = transformLayers env (SourceData.layers src) (Fin 0) (Fin 0),
                   scaleFactor = scale env,
                   metrics =
                     \<lparr>source = \<lparr>w = Rect.w (originalBounds src), h = Rect.h (originalBounds src)\<rparr>,
                      target = \<lparr>w = Rect.w (TargetData.bounds tgt),
                                h = Rect.h (TargetData.bounds tgt)\<rparr>\<rparr>\<rparr>)))"

section \<open>The export node\<close>

record ContainerDefinition =
  id' :: string
  name :: string
  originalName :: string
  bounds :: Rect
  normalized :: Rect

record Canvas =
  width :: number
  height :: number

record TemplateMetadata =
  canvas :: Canvas
  containers :: "ContainerDefinition list"

text \<open>An edge of the graph, with the four fields that the node reads.\<close>

record Edge =
  source :: string
  target :: string
  sourceHandle :: "string option"
  targetHandle :: "string option"

text \<open>
  The registries are plain objects, read with \<^verbatim>\<open>registry[key]\<close>.  Such a read yields a
  falsy value (\<^verbatim>\<open>undefined\<close>) for a key that the object does not know, an entry of the
  registry, or, for a key such as \<^verbatim>\<open>constructor\<close>, a member that the object inherits:
  a truthy value that is no entry and has none of the fields of one.
\<close>

datatype 'a Member = Absent | Inherited | Own 'a

text \<open>
  The template registry by the outcome of its read.  The payload registry is read twice:
  \<open>None\<close> when the first read is falsy, and otherwise the outcomes of the reads of the
  object found, be it an entry of the registry or an inherited member.
\<close>

type_synonym TemplateRegistry = "string \<Rightarrow> TemplateMetadata Member"
type_synonym PayloadRegistry = "string \<Rightarrow> (string \<Rightarrow> TransformedPayload Member) option"

text \<open>1. The connected target template, through the first edge into \<^verbatim>\<open>template-input\<close>.\<close>

definition templateMetadata ::
  "string \<Rightarrow> Edge list \<Rightarrow> TemplateRegistry \<Rightarrow> TemplateMetadata Member" where
  "templateMetadata nodeId' edges templateRegistry =
     (case find (\<lambda>e. Edge.target e = nodeId' \<and> targetHandle e = Some ''template-input'') edges of
        None \<Rightarrow> Absent
      | Some edge \<Rightarrow> templateRegistry (Edge.source edge))"

text \<open>\<^verbatim>\<open>templateMetadata?.containers || []\<close>\<close>

definition containersOf :: "TemplateMetadata Member \<Rightarrow> ContainerDefinition list" where
  "containersOf tm = (case tm of Own t \<Rightarrow> containers t | _ \<Rightarrow> [])"

text \<open>
  2. The connections.  \<^verbatim>\<open>slotConnections\<close> is a \<^verbatim>\<open>Map\<close>: an association list whose
  keys stay distinct, \<^verbatim>\<open>set\<close> is \<^const>\<open>AList.update\<close> and \<^verbatim>\<open>size\<close> is the length.
  \<^verbatim>\<open>validationErrors\<close> is the array of messages.
\<close>

record Connections =
  slotConnections :: "(string \<times> TransformedPayload) list"
  validationErrors :: "string list"

definition violationMessage :: "string \<Rightarrow> string \<Rightarrow> string" where
  "violationMessage semanticTarget slotName =
     ''PROCEDURAL VIOLATION: Payload targeting '' @ [CHR 0x27] @ semanticTarget @ [CHR 0x27]
       @ '' is miswired to slot '' @ [CHR 0x27] @ slotName @ [CHR 0x27] @ ''.''"

text \<open>
  \<^verbatim>\<open>payloadRegistry[edge.source]\<close> and then, when that is truthy, the member
  \<^verbatim>\<open>edge.sourceHandle || ''\<close> of it.
\<close>

definition payloadOf :: "PayloadRegistry \<Rightarrow> Edge \<Rightarrow> TransformedPayload Member" where
  "payloadOf payloadRegistry edge =
     (case payloadRegistry (Edge.source edge) of
        None \<Rightarrow> Absent
      | Some sourceNodePayloads \<Rightarrow>
          sourceNodePayloads (case sourceHandle edge of None \<Rightarrow> [] | Some sh \<Rightarrow> sh))"

text \<open>
  The body of \<^verbatim>\<open>edges.forEach\<close>.  The handle starts with \<^verbatim>\<open>input-\<close>, so replacing its
  first occurrence by the empty string drops the first six characters.  The field
  \<^verbatim>\<open>targetContainer\<close> of an inherited member is \<^verbatim>\<open>undefined\<close>: it equals no slot name,
  and the message prints it as \<^verbatim>\<open>undefined\<close>.
\<close>

definition connectEdge :: "string \<Rightarrow> PayloadRegistry \<Rightarrow> Edge \<Rightarrow> Connections \<Rightarrow> Connections" where
  "connectEdge nodeId' payloadRegistry edge acc =
     (if Edge.target edge \<noteq> nodeId' then acc
      else
        (case targetHandle edge of
           None \<Rightarrow> acc
         | Some handle \<Rightarrow>
             if \<not> prefix ''input-'' handle then acc
             else
               (let slotName = drop 6 handle in
                case payloadOf payloadRegistry edge of
                  Absent \<Rightarrow> acc
                | Inherited \<Rightarrow>
                    acc\<lparr>validationErrors :=
                          validationErrors acc @ [violationMessage ''undefined'' slotName]\<rparr>
                | Own payload \<Rightarrow>
                    (let semanticTarget = targetContainer payload in
                     if semanticTarget = slotName
                     then acc\<lparr>slotConnections :=
                            AList.update slotName payload (slotConnections acc)\<rparr>
                     else acc\<lparr>validationErrors :=
                            validationErrors acc @ [violationMessage semanticTarget slotName]\<rparr>))))"

definition connections :: "string \<Rightarrow> Edge list \<Rightarrow> PayloadRegistry \<Rightarrow> Connections" where
  "connections nodeId' edges payloadRegistry =
     fold (connectEdge nodeId' payloadRegistry) edges
       \<lparr>slotConnections = [], validationErrors = []\<rparr>"

text \<open>3. The status.\<close>

definition totalSlots :: "string \<Rightarrow> Edge list \<Rightarrow> TemplateRegistry \<Rightarrow> nat" where
  "totalSlots nodeId' edges templateRegistry =
     length (containersOf (templateMetadata nodeId' edges templateRegistry))"

definition filledSlots :: "string \<Rightarrow> Edge list \<Rightarrow> PayloadRegistry \<Rightarrow> nat" where
  "filledSlots nodeId' edges payloadRegistry =
     length (slotConnections (connections nodeId' edges payloadRegistry))"

definition isTemplateReady :: "string \<Rightarrow> Edge list \<Rightarrow> TemplateRegistry \<Rightarrow> bool" where
  "isTemplateReady nodeId' edges templateRegistry =
     (templateMetadata nodeId' edges templateRegistry \<noteq> Absent)"

definition isFullyAssembled ::
  "string \<Rightarrow> Edge list \<Rightarrow> TemplateRegistry \<Rightarrow> PayloadRegistry \<Rightarrow> bool" where
  "isFullyAssembled nodeId' edges templateRegistry payloadRegistry =
     (isTemplateReady nodeId' edges templateRegistry
      \<and> filledSlots nodeId' edges payloadRegistry = totalSlots nodeId' edges templateRegistry
      \<and> 0 < totalSlots nodeId' edges templateRegistry
      \<and> length (validationErrors (connections nodeId' edges payloadRegistry)) = 0)"

section \<open>Reconstruction of the hierarchy\<close>

text \<open>
  A layer of the document library, with the fields that the export writes; every other
  property of a layer (blend mode, effects, image data) is the field \<open>others\<close>, absent
  in a layer that the export creates.
\<close>

datatype 'r PsdLayer = PsdLayer
  (name: "string option")
  (top': "number option")
  (left: "number option")
  (bottom: "number option")
  (right: "number option")
  (hidden: "bool option")
  (opacity: "number option")
  (children: "'r PsdLayer list option")
  (opened: "bool option")
  (others: "'r option")

record 'r Psd =
  width :: number
  height :: number
  children :: "'r PsdLayer list option"
  canvasState :: "'r option"

text \<open>
  \<^verbatim>\<open>findLayerByPath\<close> is imported from the service module; it is a parameter here.
\<close>

type_synonym 'r Finder = "'r Psd \<Rightarrow> string \<Rightarrow> 'r PsdLayer option"

text \<open>The object literal \<^verbatim>\<open>newLayer\<close>: the original layer with seven fields replaced.\<close>

definition newLayer :: "'r PsdLayer \<Rightarrow> TransformedLayer \<Rightarrow> 'r PsdLayer" where
  "newLayer originalLayer metaLayer =
     PsdLayer
       (PsdLayer.name originalLayer)
       (Some (y (coords metaLayer)))
       (Some (x (coords metaLayer)))
       (Some (y (coords metaLayer) + Rect.h (coords metaLayer)))
       (Some (x (coords metaLayer) + Rect.w (coords metaLayer)))
       (Some (\<not> isVisible metaLayer))
       (Some (LayerNode.opacity metaLayer * Fin 255))
       None
       (opened originalLayer)
       (others originalLayer)"

text \<open>The two assignments of the group branch.\<close>

definition asGroup :: "'r PsdLayer \<Rightarrow> 'r PsdLayer list \<Rightarrow> 'r PsdLayer" where
  "asGroup l cs =
     PsdLayer (PsdLayer.name l) (top' l) (left l) (bottom l) (right l) (hidden l)
       (PsdLayer.opacity l) (Some cs) (Some True) (others l)"

function reconstructHierarchy ::
  "'r Finder \<Rightarrow> TransformedLayer list \<Rightarrow> 'r Psd \<Rightarrow> 'r PsdLayer list" where
  "reconstructHierarchy findLayerByPath transformedLayers sourcePsd =
     fold (\<lambda>metaLayer resultLayers.
        case findLayerByPath sourcePsd (LayerNode.id' metaLayer) of
          None \<Rightarrow> resultLayers
        | Some originalLayer \<Rightarrow>
            resultLayers @
              [case LayerNode.children metaLayer of
                 None \<Rightarrow> newLayer originalLayer metaLayer
               | Some cs \<Rightarrow>
                   if type' metaLayer = Group
                   then asGroup (newLayer originalLayer metaLayer)
                          (reconstructHierarchy findLayerByPath cs sourcePsd)
                   else newLayer originalLayer metaLayer])
       transformedLayers []"
  by pat_completeness auto
termination
proof (relation "measure (\<lambda>(f, layers, psd). size_list size layers)")
  show "wf (measure (\<lambda>(f :: 'r Finder, layers :: TransformedLayer list, psd :: 'r Psd).
          size_list size layers))"
    by simp
next
  fix findLayerByPath :: "'r Finder" and transformedLayers :: "TransformedLayer list"
    and sourcePsd :: "'r Psd" and metaLayer cs
  assume a: "metaLayer \<in> set transformedLayers" and b: "LayerNode.children metaLayer = Some cs"
  have "size_list size cs < size metaLayer" using b by (cases metaLayer) simp
  also have "size metaLayer \<le> size_list size transformedLayers"
    using a by (simp add: size_list_estimation')
  finally show "((findLayerByPath, cs, sourcePsd), findLayerByPath, transformedLayers, sourcePsd)
      \<in> measure (\<lambda>(f, layers, psd). size_list size layers)"
    by simp
qed

declare reconstructHierarchy.simps [simp del]

text \<open>
  C. One container group per filled slot, in the order of the template; a payload whose
  source document is not in the registry throws, which ends the loop.
\<close>

type_synonym 'r PsdRegistry = "string \<rightharpoonup> 'r Psd"

definition missingPsdMessage :: "string \<Rightarrow> string" where
  "missingPsdMessage n =
     ''Binary PSD data missing for source node: '' @ n @ ''. Please reload the source file.''"

definition containerGroup :: "ContainerDefinition \<Rightarrow> 'r PsdLayer list \<Rightarrow> 'r PsdLayer" where
  "containerGroup container reconstructedContent =
     PsdLayer
       (Some (originalName container))
       (Some (y (bounds container)))
       (Some (x (bounds container)))
       (Some (y (bounds container) + Rect.h (bounds container)))
       (Some (x (bounds container) + Rect.w (bounds container)))
       None
       None
       (Some reconstructedContent)
       (Some True)
       None"

fun finalChildren ::
  "'r Finder \<Rightarrow> 'r PsdRegistry \<Rightarrow> (string \<times> TransformedPayload) list \<Rightarrow>
     ContainerDefinition list \<Rightarrow> 'r PsdLayer list \<Rightarrow> string + 'r PsdLayer list" where
  "finalChildren findLayerByPath psdRegistry slots [] acc = Inr acc"
| "finalChildren findLayerByPath psdRegistry slots (container # rest) acc =
     (case map_of slots (ContainerDefinition.name container) of
        None \<Rightarrow> finalChildren findLayerByPath psdRegistry slots rest acc
      | Some payload \<Rightarrow>
          (case psdRegistry (sourceNodeId payload) of
             None \<Rightarrow> Inl (missingPsdMessage (sourceNodeId payload))
           | Some sourcePsd \<Rightarrow>
               finalChildren findLayerByPath psdRegistry slots rest
                 (acc @ [containerGroup container
                    (reconstructHierarchy findLayerByPath
                       (TransformedPayload.layers payload) sourcePsd)])))"

text \<open>
  \<^verbatim>\<open>handleExport\<close> up to the document that it hands to the writer: \<open>None\<close> when it
  returns at once, \<open>Inl\<close> the message of the error that it catches.  An inherited member
  in the place of the template has no containers, so that the assembly is not complete
  and the function returns at once.  A truthy inherited member read from the registry of
  the documents is, like an entry, a value handed to \<^verbatim>\<open>findLayerByPath\<close>.
\<close>

definition handleExport ::
  "'r Finder \<Rightarrow> string \<Rightarrow> Edge list \<Rightarrow> TemplateRegistry \<Rightarrow> PayloadRegistry \<Rightarrow>
     'r PsdRegistry \<Rightarrow> (string + 'r Psd) option" where
  "handleExport findLayerByPath nodeId' edges templateRegistry payloadRegistry psdRegistry =
     (if templateMetadata nodeId' edges templateRegistry = Absent
         \<or> \<not> isFullyAssembled nodeId' edges templateRegistry payloadRegistry
      then None
      else
        (case templateMetadata nodeId' edges templateRegistry of
           Own tm \<Rightarrow>
             Some
               (case finalChildren findLayerByPath psdRegistry
                       (slotConnections (connections nodeId' edges payloadRegistry))
                       (containers tm) [] of
                  Inl e \<Rightarrow> Inl e
                | Inr cs \<Rightarrow>
                    Inr \<lparr>width = Canvas.width (canvas tm), height = Canvas.height (canvas tm),
                         children = Some cs, canvasState = None\<rparr>)
         | _ \<Rightarrow> None))"

section \<open>Notions used in the statements\<close>

text \<open>The identifier, the kind and the children, in their order: the shape of a tree.\<close>

datatype Shape = Shape string LayerType "Shape list option"

fun shapeOf :: "'e LayerNode \<Rightarrow> Shape" where
  "shapeOf (LayerNode i n t cs v opa c e) = Shape i t (map_option (map shapeOf) cs)"

text \<open>Every element of a forest, parents before their children.\<close>

fun selfAndDescendants :: "'e LayerNode \<Rightarrow> 'e LayerNode list" where
  "selfAndDescendants (LayerNode i n t cs v opa c e) =
     LayerNode i n t cs v opa c e #
       (case cs of None \<Rightarrow> [] | Some ls \<Rightarrow> concat (map selfAndDescendants ls))"

definition allLayers :: "'e LayerNode list \<Rightarrow> 'e LayerNode list" where
  "allLayers ls = concat (map selfAndDescendants ls)"

text \<open>The image of one layer under \<^verbatim>\<open>transformLayers\<close>: the body of its \<^verbatim>\<open>map\<close>.\<close>

definition transformLayer ::
  "RemapEnv \<Rightarrow> SerializableLayer \<Rightarrow> number \<Rightarrow> number \<Rightarrow> TransformedLayer" where
  "transformLayer env layer parentDeltaX parentDeltaY =
     LayerNode
       (LayerNode.id' layer)
       (LayerNode.name layer)
       (type' layer)
       (map_option
          (\<lambda>cs. transformLayers env cs
             (currentDeltaX env layer parentDeltaX) (currentDeltaY env layer parentDeltaY))
          (LayerNode.children layer))
       (isVisible layer)
       (LayerNode.opacity layer)
       \<lparr>x = finalX env layer parentDeltaX, y = finalY env layer parentDeltaY,
        w = newW env layer, h = newH env layer\<rparr>
       \<lparr>scaleX = layerScaleX env layer, scaleY = layerScaleY env layer,
        offsetX = finalX env layer parentDeltaX, offsetY = finalY env layer parentDeltaY\<rparr>"

text \<open>
  A small instance: the source rect \<open>{0,0,100,200}\<close>, the target rect \<open>{10,10,50,50}\<close>,
  a strategy of scale \<open>0.25\<close> that overrides the group \<open>E\<close> far below the target, and
  a tree made of \<open>E\<close> and its child \<open>D\<close>.
\<close>

definition demoOverride :: LayerOverride where
  "demoOverride =
     \<lparr>layerId = ''E'', xOffset = Fin 5, yOffset = Fin 1000, individualScale = Fin 1\<rparr>"

definition demoStrategy :: LayoutStrategy where
  "demoStrategy =
     \<lparr>suggestedScale = Fin (1 / 4), anchor = CENTER, generativePrompt = [], reasoning = [],
      overrides = Some [demoOverride], safetyReport = None\<rparr>"

definition demoD :: SerializableLayer where
  "demoD = LayerNode ''D'' ''leaf'' Layer None True (Fin 1) (finRect 0 0 10 10) ()"

definition demoE :: SerializableLayer where
  "demoE = LayerNode ''E'' ''group'' Group (Some [demoD]) True (Fin 1) (finRect 0 0 100 200) ()"

definition demoTree :: "SerializableLayer list" where
  "demoTree = [demoE]"

definition demoEnv :: RemapEnv where
  "demoEnv = resolveEnv (finRect 0 0 100 200) (finRect 10 10 50 50) (Some demoStrategy)"

text \<open>
  The element at a path of child indices in a forest, and the paths all of whose
  elements, the last one included, have no override.
\<close>

fun nodeAt :: "'e LayerNode list \<Rightarrow> nat list \<Rightarrow> 'e LayerNode option" where
  "nodeAt ls [] = None"
| "nodeAt ls [i] = (if i < length ls then Some (ls ! i) else None)"
| "nodeAt ls (i # j # p) =
     (if i < length ls
      then (case LayerNode.children (ls ! i) of None \<Rightarrow> None | Some cs \<Rightarrow> nodeAt cs (j # p))
      else None)"

fun plainPath :: "RemapEnv \<Rightarrow> 'e LayerNode list \<Rightarrow> nat list \<Rightarrow> bool" where
  "plainPath env ls [] = False"
| "plainPath env ls [i] = (i < length ls \<and> override env (ls ! i) = None)"
| "plainPath env ls (i # j # p) =
     (i < length ls \<and> override env (ls ! i) = None \<and>
      (case LayerNode.children (ls ! i) of None \<Rightarrow> False | Some cs \<Rightarrow> plainPath env cs (j # p)))"

text \<open>
  The scenario of the specification with an override on the root, the scale of the
  strategy being the base scale \<open>0.25\<close> of the scenario; and a strategy in which two
  overrides name the same layer.
\<close>

definition scenarioStrategy :: LayoutStrategy where
  "scenarioStrategy =
     \<lparr>suggestedScale = Fin (1 / 4), anchor = CENTER, generativePrompt = [], reasoning = [],
      overrides = Some [\<lparr>layerId = ''E'', xOffset = Fin 5, yOffset = Fin 5,
                         individualScale = Fin 2\<rparr>],
      safetyReport = None\<rparr>"

definition scenarioEnv :: RemapEnv where
  "scenarioEnv = resolveEnv (finRect 0 0 100 200) (finRect 10 10 50 50) (Some scenarioStrategy)"

definition dupStrategy :: LayoutStrategy where
  "dupStrategy =
     \<lparr>suggestedScale = Fin (1 / 4), anchor = CENTER, generativePrompt = [], reasoning = [],
      overrides = Some [\<lparr>layerId = ''other'', xOffset = Fin 1, yOffset = Fin 1,
                         individualScale = Fin 1\<rparr>,
                        \<lparr>layerId = ''E'', xOffset = Fin 5, yOffset = Fin 5,
                         individualScale = Fin 2\<rparr>,
                        \<lparr>layerId = ''E'', xOffset = Fin 7, yOffset = Fin 9,
                         individualScale = Fin 3\<rparr>],
      safetyReport = None\<rparr>"

definition dupEnv :: RemapEnv where
  "dupEnv = resolveEnv (finRect 0 0 100 200) (finRect 10 10 50 50) (Some dupStrategy)"

text \<open>Small assemblies: payloads, containers, templates and edges by their names.\<close>

definition demoPayload :: "string \<Rightarrow> TransformedLayer list \<Rightarrow> TransformedPayload" where
  "demoPayload dest ls =
     \<lparr>status = success, sourceNodeId = ''load'', sourceContainer = ''SRC'',
      targetContainer = dest, TransformedPayload.layers = ls, scaleFactor = Fin 1,
      metrics = \<lparr>Metrics.source = \<lparr>Size.w = Fin 10, h = Fin 10\<rparr>,
                 Metrics.target = \<lparr>Size.w = Fin 10, h = Fin 10\<rparr>\<rparr>\<rparr>"

definition demoContainer :: "string \<Rightarrow> ContainerDefinition" where
  "demoContainer n =
     \<lparr>ContainerDefinition.id' = n, ContainerDefinition.name = n, originalName = n,
      ContainerDefinition.bounds = finRect 0 0 10 10, normalized = finRect 0 0 1 1\<rparr>"

definition demoTemplate :: "string list \<Rightarrow> TemplateMetadata" where
  "demoTemplate ns =
     \<lparr>canvas = \<lparr>Canvas.width = Fin 100, Canvas.height = Fin 100\<rparr>,
      containers = map demoContainer ns\<rparr>"

definition demoEdge :: "string \<Rightarrow> string \<Rightarrow> Edge" where
  "demoEdge src handle =
     \<lparr>Edge.source = src, Edge.target = ''export'', sourceHandle = Some ''result-out-0'',
      targetHandle = Some handle\<rparr>"

text \<open>Registries with one entry: every other key reads as \<^verbatim>\<open>undefined\<close>.\<close>

definition oneTemplate :: "string \<Rightarrow> TemplateMetadata \<Rightarrow> TemplateRegistry" where
  "oneTemplate k t = (\<lambda>key. if key = k then Own t else Absent)"

definition onePayload :: "string \<Rightarrow> string \<Rightarrow> TransformedPayload \<Rightarrow> PayloadRegistry" where
  "onePayload k handle p =
     (\<lambda>key. if key = k then Some (\<lambda>m. if m = handle then Own p else Absent) else None)"

text \<open>
  The layer that \<^verbatim>\<open>reconstructHierarchy\<close> pushes for a transformed layer whose original
  layer is found.
\<close>

definition reconstructLayer ::
  "'r Finder \<Rightarrow> 'r Psd \<Rightarrow> 'r PsdLayer \<Rightarrow> TransformedLayer \<Rightarrow> 'r PsdLayer" where
  "reconstructLayer findLayerByPath sourcePsd originalLayer metaLayer =
     (case LayerNode.children metaLayer of
        None \<Rightarrow> newLayer originalLayer metaLayer
      | Some cs \<Rightarrow>
          if type' metaLayer = Group
          then asGroup (newLayer originalLayer metaLayer)
                 (reconstructHierarchy findLayerByPath cs sourcePsd)
          else newLayer originalLayer metaLayer)"

text \<open>
  An assembly of one slot, filled by the transformed small instance, whose source
  document has no layer, so that no identifier is found in it.
\<close>

definition soloEdges :: "Edge list" where
  "soloEdges = [demoEdge ''tpl'' ''template-input'', demoEdge ''r1'' ''input-BG'']"

definition soloTemplates :: TemplateRegistry where
  "soloTemplates = oneTemplate ''tpl'' (demoTemplate [''BG''])"

definition soloPayloads :: PayloadRegistry where
  "soloPayloads =
     onePayload ''r1'' ''result-out-0''
       (demoPayload ''BG'' (transformLayers demoEnv demoTree (Fin 0) (Fin 0)))"

definition emptyPsd :: "unit Psd" where
  "emptyPsd = \<lparr>width = Fin 100, height = Fin 100, children = Some [], canvasState = None\<rparr>"

definition soloPsds :: "unit PsdRegistry" where
  "soloPsds = [''load'' \<mapsto> emptyPsd]"

definition nothingFound :: "unit Finder" where
  "nothingFound sourcePsd path = None"

text \<open>
  An assembly whose template has the one slot \<open>BG\<close> and whose only wiring goes into a
  handle \<^verbatim>\<open>input-FOO\<close>, left from another template, with a payload that declares
  \<open>FOO\<close>; nothing is wired to \<open>BG\<close>.
\<close>

definition staleEdges :: "Edge list" where
  "staleEdges = [demoEdge ''tpl'' ''template-input'', demoEdge ''r1'' ''input-FOO'']"

definition staleTemplates :: TemplateRegistry where
  "staleTemplates = oneTemplate ''tpl'' (demoTemplate [''BG''])"

definition stalePayloads :: PayloadRegistry where
  "stalePayloads = onePayload ''r1'' ''result-out-0'' (demoPayload ''FOO'' [])"

section \<open>Arithmetic\<close>

lemma signedZero_simps [simp]: "signedZero True = NZero" "signedZero False = Fin 0"
  by (simp_all add: signedZero_def)

lemma Fin_minus [simp]: "Fin a - Fin b = Fin (a - b)"
  by (simp add: minus_number_def)

lemma Fin_times_pos: "0 < a \<Longrightarrow> Fin a * Fin b = Fin (a * b)"
  by auto

lemma Fin_divide_pos: "0 < b \<Longrightarrow> Fin a / Fin b = Fin (a / b)"
  by auto

lemma Math_min_Fin: "Math_min (Fin a) (Fin b) = Fin (min a b)"
  by (simp add: min_def)



text \<open>
  The clamp, for bounds in order: its value is \<^verbatim>\<open>NaN\<close> exactly when the clamped value
  is, and it is within the bounds otherwise.  \<^verbatim>\<open>Math.max\<close> and \<^verbatim>\<open>Math.min\<close> return
  one of their arguments, so that no arithmetic is involved.
\<close>

lemma clamp_NaN: "lo \<le> hi \<Longrightarrow> Math_max lo (Math_min v hi) = NaN \<longleftrightarrow> v = NaN"
  by (cases lo; cases hi; cases v) (simp_all split: if_splits)

lemma clamp_lower: "lo \<le> hi \<Longrightarrow> v \<noteq> NaN \<Longrightarrow> lo \<le> Math_max lo (Math_min v hi)"
  by (cases lo; cases hi; cases v) (simp_all split: if_splits)

lemma clamp_upper: "lo \<le> hi \<Longrightarrow> v \<noteq> NaN \<Longrightarrow> Math_max lo (Math_min v hi) \<le> hi"
  by (cases lo; cases hi; cases v) (simp_all split: if_splits)

lemmas body_defs = finalX_def finalY_def override_def geomX_def geomY_def relX_def relY_def
  finalY_unclamped_def minY_def maxY_def bleedY_def MAX_BOUNDARY_VIOLATION_PERCENT_def
  newW_def newH_def layerScaleX_def layerScaleY_def currentDeltaX_def currentDeltaY_def
  aiX_def aiY_def

section \<open>Basic facts about the transformation\<close>

lemma transformLayers_map:
  "transformLayers env ls dx dy = map (\<lambda>l. transformLayer env l dx dy) ls"
  by (subst transformLayers.simps) (auto simp: transformLayer_def split: option.split)

lemma transformLayers_Nil [simp]: "transformLayers env [] dx dy = []"
  by (simp add: transformLayers_map)

lemma transformLayers_Cons [simp]:
  "transformLayers env (l # ls) dx dy = transformLayer env l dx dy # transformLayers env ls dx dy"
  by (simp add: transformLayers_map)

lemma transformLayer_sel [simp]:
  "LayerNode.id' (transformLayer env l dx dy) = LayerNode.id' l"
  "type' (transformLayer env l dx dy) = type' l"
  "LayerNode.name (transformLayer env l dx dy) = LayerNode.name l"
  "isVisible (transformLayer env l dx dy) = isVisible l"
  "LayerNode.opacity (transformLayer env l dx dy) = LayerNode.opacity l"
  "LayerNode.children (transformLayer env l dx dy) =
     map_option (\<lambda>cs. transformLayers env cs (currentDeltaX env l dx) (currentDeltaY env l dy))
       (LayerNode.children l)"
  "coords (transformLayer env l dx dy) =
     \<lparr>x = finalX env l dx, y = finalY env l dy, w = newW env l, h = newH env l\<rparr>"
  "transform (transformLayer env l dx dy) =
     \<lparr>scaleX = layerScaleX env l, scaleY = layerScaleY env l,
      offsetX = finalX env l dx, offsetY = finalY env l dy\<rparr>"
  by (simp_all add: transformLayer_def)

lemma shapeOf_eq: "shapeOf l = Shape (LayerNode.id' l) (type' l) (map_option (map shapeOf) (LayerNode.children l))"
  by (cases l) simp

lemma selfAndDescendants_eq:
  "selfAndDescendants l = l # (case LayerNode.children l of None \<Rightarrow> [] | Some cs \<Rightarrow> allLayers cs)"
  by (cases l) (simp add: allLayers_def split: option.split)

lemma allLayers_Nil [simp]: "allLayers [] = []"
  by (simp add: allLayers_def)

lemma allLayers_Cons:
  "allLayers (l # ls) =
     l # (case LayerNode.children l of None \<Rightarrow> [] | Some cs \<Rightarrow> allLayers cs) @ allLayers ls"
  by (simp add: allLayers_def selfAndDescendants_eq)

lemma in_allLayers_iff:
  "t \<in> set (allLayers ls) \<longleftrightarrow>
     (\<exists>l\<in>set ls. t = l \<or> (\<exists>cs. LayerNode.children l = Some cs \<and> t \<in> set (allLayers cs)))"
proof (induction ls)
  case Nil
  then show ?case by simp
next
  case (Cons a ls)
  show ?case
    by (cases "LayerNode.children a") (auto simp: allLayers_Cons [of a ls] Cons.IH)
qed


lemma in_allLayers_transform_iff:
  "t \<in> set (allLayers (transformLayers env ls dx dy)) \<longleftrightarrow>
     (\<exists>l\<in>set ls. t = transformLayer env l dx dy \<or>
        (\<exists>cs. LayerNode.children l = Some cs \<and>
           t \<in> set (allLayers (transformLayers env cs
                  (currentDeltaX env l dx) (currentDeltaY env l dy)))))"
proof -
  have "t \<in> set (allLayers (transformLayers env ls dx dy)) \<longleftrightarrow>
     (\<exists>l'\<in>set (map (\<lambda>l. transformLayer env l dx dy) ls).
         t = l' \<or> (\<exists>cs. LayerNode.children l' = Some cs \<and> t \<in> set (allLayers cs)))"
    unfolding transformLayers_map [of env ls dx dy] by (rule in_allLayers_iff)
  also have "\<dots> \<longleftrightarrow> (\<exists>l\<in>set ls. t = transformLayer env l dx dy \<or>
        (\<exists>cs. LayerNode.children (transformLayer env l dx dy) = Some cs \<and> t \<in> set (allLayers cs)))"
    by (simp only: set_map bex_simps)
  also have "\<dots> \<longleftrightarrow> (\<exists>l\<in>set ls. t = transformLayer env l dx dy \<or>
        (\<exists>cs. LayerNode.children l = Some cs \<and>
           t \<in> set (allLayers (transformLayers env cs
                  (currentDeltaX env l dx) (currentDeltaY env l dy)))))"
    by (simp only: transformLayer_sel map_option_eq_Some) blast
  finally show ?thesis .
qed


lemma shape_preserved:
  "map shapeOf (transformLayers env ls dx dy) = map shapeOf ls"
proof (induction env ls dx dy rule: transformLayers.induct)
  case (1 env ls dx dy)
  have "shapeOf (transformLayer env l dx dy) = shapeOf l" if "l \<in> set ls" for l
  proof (cases "LayerNode.children l")
    case None
    then show ?thesis by (simp add: shapeOf_eq [of "transformLayer env l dx dy"] shapeOf_eq [of l])
  next
    case (Some cs)
    with 1 [OF that Some] show ?thesis
      by (simp add: shapeOf_eq [of "transformLayer env l dx dy"] shapeOf_eq [of l])
  qed
  then show ?case by (simp add: transformLayers_map [of env ls])
qed

text \<open>An invariant of the inherited vertical delta carries a property to every element.\<close>

lemma allLayers_transform_all:
  "(\<And>l ex ey. R l ey \<Longrightarrow> Q (transformLayer env l ex ey)) \<Longrightarrow>
   (\<And>l cs c ey. R l ey \<Longrightarrow> LayerNode.children l = Some cs \<Longrightarrow> c \<in> set cs \<Longrightarrow>
                 R c (currentDeltaY env l ey)) \<Longrightarrow>
   (\<forall>l\<in>set ls. R l dy) \<Longrightarrow> t \<in> set (allLayers (transformLayers env ls dx dy)) \<Longrightarrow> Q t"
proof (induction env ls dx dy arbitrary: t rule: transformLayers.induct)
  case (1 env ls dx dy)
  from "1.prems"(4) in_allLayers_transform_iff [of t env ls dx dy]
  obtain l where l: "l \<in> set ls"
    and t: "t = transformLayer env l dx dy \<or>
        (\<exists>cs. LayerNode.children l = Some cs \<and>
           t \<in> set (allLayers (transformLayers env cs
                  (currentDeltaX env l dx) (currentDeltaY env l dy))))"
    by blast
  from l "1.prems"(3) have R: "R l dy" by blast
  from t show ?case
  proof
    assume "t = transformLayer env l dx dy"
    with "1.prems"(1) [OF R] show ?thesis by simp
  next
    assume "\<exists>cs. LayerNode.children l = Some cs \<and>
           t \<in> set (allLayers (transformLayers env cs
                  (currentDeltaX env l dx) (currentDeltaY env l dy)))"
    then obtain cs where cs: "LayerNode.children l = Some cs"
      and tin: "t \<in> set (allLayers (transformLayers env cs
                  (currentDeltaX env l dx) (currentDeltaY env l dy)))"
      by blast
    have "\<forall>c\<in>set cs. R c (currentDeltaY env l dy)"
      using "1.prems"(2) [OF R cs] by blast
    from "1.IH" [OF l cs "1.prems"(1) "1.prems"(2) this tin] show ?thesis .
  qed
qed

lemma length_allLayers_transform:
  "length (allLayers (transformLayers env ls dx dy)) = length (allLayers ls)"
proof (induction env ls dx dy rule: transformLayers.induct)
  case (1 env ls dx dy)
  have "length (selfAndDescendants (transformLayer env l dx dy)) = length (selfAndDescendants l)"
    if "l \<in> set ls" for l
    using 1 [OF that]
    by (cases "LayerNode.children l") (simp_all add: selfAndDescendants_eq)
  then have eq: "map (\<lambda>l. length (selfAndDescendants (transformLayer env l dx dy))) ls
     = map (\<lambda>l. length (selfAndDescendants l)) ls" by simp
  have "length (allLayers (transformLayers env ls dx dy)) =
      sum_list (map (\<lambda>l. length (selfAndDescendants (transformLayer env l dx dy))) ls)"
    by (simp add: allLayers_def transformLayers_map [of env ls dx dy] length_concat comp_def)
  also have "\<dots> = sum_list (map (\<lambda>l. length (selfAndDescendants l)) ls)"
    by (simp only: eq)
  also have "\<dots> = length (allLayers ls)"
    by (simp add: allLayers_def length_concat comp_def)
  finally show ?case .
qed

section \<open>The transform resolver\<close>

lemma resolveEnv_default_fin:
  assumes "0 < sw" "0 < sh"
  shows "resolveEnv (finRect sx sy sw sh) (finRect tx ty tw th) None =
     \<lparr>sourceRect = finRect sx sy sw sh, targetRect = finRect tx ty tw th,
      scale = Fin (min (tw / sw) (th / sh)),
      anchorX = Fin (tx + (tw - sw * min (tw / sw) (th / sh)) / 2),
      anchorY = Fin (ty + (th - sh * min (tw / sw) (th / sh)) / 2),
      strategy = None\<rparr>"
  using assms
  by (simp add: resolveEnv_def finRect_def ratioX_def ratioY_def Let_def
      Fin_divide_pos Fin_times_pos Math_min_Fin del: times_number.simps divide_number.simps
      Math_min.simps)


text \<open>
  Claim C4.  Without a strategy the scale is the minimum of the two ratios and the anchor
  centres the scaled source rect in the target on both axes: in the arithmetic of the
  program for all rects, and, for finite rects with positive source dimensions, as the
  finite numbers \<open>min (tw / sw) (th / sh)\<close> and \<open>tx + (tw - sw * scale) / 2\<close>,
  \<open>ty + (th - sh * scale) / 2\<close>.  For the source rect \<open>{0,0,100,200}\<close> and the target rect
  \<open>{10,10,50,50}\<close> the scale is \<open>0.25\<close>, the anchor is \<open>(22.5, 10)\<close>, and an element
  whose rect is the source rect gets the final rect \<open>{22.5, 10, 25, 50}\<close>.
\<close>

theorem C4_default_fit:
  assumes "0 < sw" and "0 < sh"
  shows "resolveEnv (finRect sx sy sw sh) (finRect tx ty tw th) None =
       \<lparr>sourceRect = finRect sx sy sw sh, targetRect = finRect tx ty tw th,
        scale = Fin (min (tw / sw) (th / sh)),
        anchorX = Fin (tx + (tw - sw * min (tw / sw) (th / sh)) / 2),
        anchorY = Fin (ty + (th - sh * min (tw / sw) (th / sh)) / 2),
        strategy = None\<rparr>
     \<and> scale (resolveEnv srcRect tgtRect None) =
         Math_min (Rect.w tgtRect / Rect.w srcRect) (Rect.h tgtRect / Rect.h srcRect)
     \<and> anchorX (resolveEnv srcRect tgtRect None) =
         x tgtRect + (Rect.w tgtRect - Rect.w srcRect * scale (resolveEnv srcRect tgtRect None)) / Fin 2
     \<and> anchorY (resolveEnv srcRect tgtRect None) =
         y tgtRect + (Rect.h tgtRect - Rect.h srcRect * scale (resolveEnv srcRect tgtRect None)) / Fin 2
     \<and> scale (resolveEnv (finRect 0 0 100 200) (finRect 10 10 50 50) None) = Fin (1 / 4)
     \<and> anchorX (resolveEnv (finRect 0 0 100 200) (finRect 10 10 50 50) None) = Fin (45 / 2)
     \<and> anchorY (resolveEnv (finRect 0 0 100 200) (finRect 10 10 50 50) None) = Fin 10
     \<and> map coords
         (transformLayers (resolveEnv (finRect 0 0 100 200) (finRect 10 10 50 50) None)
            [LayerNode lid lname ltype lchildren lvisible lopacity (finRect 0 0 100 200) ()]
            (Fin 0) (Fin 0))
       = [finRect (45 / 2) 10 25 50]"
proof -
  have general: "resolveEnv (finRect sx sy sw sh) (finRect tx ty tw th) None =
       \<lparr>sourceRect = finRect sx sy sw sh, targetRect = finRect tx ty tw th,
        scale = Fin (min (tw / sw) (th / sh)),
        anchorX = Fin (tx + (tw - sw * min (tw / sw) (th / sh)) / 2),
        anchorY = Fin (ty + (th - sh * min (tw / sw) (th / sh)) / 2),
        strategy = None\<rparr>"
    using assms by (simp add: resolveEnv_default_fin)
  have scenario: "resolveEnv (finRect 0 0 100 200) (finRect 10 10 50 50) None =
       \<lparr>sourceRect = finRect 0 0 100 200, targetRect = finRect 10 10 50 50,
        scale = Fin (1 / 4), anchorX = Fin (45 / 2), anchorY = Fin 10, strategy = None\<rparr>"
    by (simp add: resolveEnv_default_fin)
  have element: "map coords
         (transformLayers (resolveEnv (finRect 0 0 100 200) (finRect 10 10 50 50) None)
            [LayerNode lid lname ltype lchildren lvisible lopacity (finRect 0 0 100 200) ()]
            (Fin 0) (Fin 0))
       = [finRect (45 / 2) 10 25 50]"
    unfolding scenario by (simp add: transformLayers.simps body_defs finRect_def)
  have exact: "scale (resolveEnv srcRect tgtRect None) =
         Math_min (Rect.w tgtRect / Rect.w srcRect) (Rect.h tgtRect / Rect.h srcRect)"
    "anchorX (resolveEnv srcRect tgtRect None) =
         x tgtRect + (Rect.w tgtRect - Rect.w srcRect * scale (resolveEnv srcRect tgtRect None)) / Fin 2"
    "anchorY (resolveEnv srcRect tgtRect None) =
         y tgtRect + (Rect.h tgtRect - Rect.h srcRect * scale (resolveEnv srcRect tgtRect None)) / Fin 2"
    by (simp_all add: resolveEnv_def Let_def ratioX_def ratioY_def)
  have nums: "scale (resolveEnv (finRect 0 0 100 200) (finRect 10 10 50 50) None) = Fin (1 / 4)"
    "anchorX (resolveEnv (finRect 0 0 100 200) (finRect 10 10 50 50) None) = Fin (45 / 2)"
    "anchorY (resolveEnv (finRect 0 0 100 200) (finRect 10 10 50 50) None) = Fin 10"
    by (simp_all add: scenario)
  from general exact nums element show ?thesis by blast
qed

theorem C4_default_fit_witness:
  "(0::real) < 100 \<and> (0::real) < 200
   \<and> resolveEnv (finRect 0 0 100 200) (finRect 10 10 50 50) None =
       \<lparr>sourceRect = finRect 0 0 100 200, targetRect = finRect 10 10 50 50,
        scale = Fin (1 / 4), anchorX = Fin (45 / 2), anchorY = Fin 10, strategy = None\<rparr>"
  using C4_default_fit [of 100 200 0 0 10 10 50 50] by simp

text \<open>
  Claim C3, as the program has it.  The resolver does not check the source rect: every
  pair of a ready source and a ready target yields a payload of status \<open>success\<close>
  whose scale factor is the minimum of the two quotients, or the scale of the strategy.
  A source width or height that is a zero makes the ratio of that axis \<open>Infinity\<close>,
  \<open>-Infinity\<close> or \<open>NaN\<close>, never a finite number, whatever the target is: for the
  target width \<open>50\<close> it is \<open>Infinity\<close> over the positive zero and \<open>-Infinity\<close> over
  the negative one, and a zero over a zero is \<open>NaN\<close>.
\<close>

theorem C3_no_geometry_check:
  "(\<exists>p. computePayload (Some src) (Some tgt) = Some p
        \<and> status p = success
        \<and> scaleFactor p =
            (case aiStrategy src of
               None \<Rightarrow>
                 Math_min (Rect.w (TargetData.bounds tgt) / Rect.w (originalBounds src))
                   (Rect.h (TargetData.bounds tgt) / Rect.h (originalBounds src))
             | Some s \<Rightarrow> suggestedScale s))
   \<and> \<not> isFinite (ratioX (srcRect\<lparr>Rect.w := Fin 0\<rparr>) tgtRect)
   \<and> \<not> isFinite (ratioX (srcRect\<lparr>Rect.w := NZero\<rparr>) tgtRect)
   \<and> \<not> isFinite (ratioY (srcRect\<lparr>Rect.h := Fin 0\<rparr>) tgtRect)
   \<and> \<not> isFinite (ratioY (srcRect\<lparr>Rect.h := NZero\<rparr>) tgtRect)
   \<and> ratioX (srcRect\<lparr>Rect.w := Fin 0\<rparr>) (finRect 10 10 50 50) = PInf
   \<and> ratioX (srcRect\<lparr>Rect.w := NZero\<rparr>) (finRect 10 10 50 50) = NInf
   \<and> ratioX (srcRect\<lparr>Rect.w := Fin 0\<rparr>) (finRect 10 10 0 50) = NaN"
proof -
  have payload: "\<exists>p. computePayload (Some src) (Some tgt) = Some p
        \<and> status p = success
        \<and> scaleFactor p =
            (case aiStrategy src of
               None \<Rightarrow>
                 Math_min (Rect.w (TargetData.bounds tgt) / Rect.w (originalBounds src))
                   (Rect.h (TargetData.bounds tgt) / Rect.h (originalBounds src))
             | Some s \<Rightarrow> suggestedScale s)"
    by (cases "aiStrategy src")
       (simp_all add: computePayload_def resolveEnv_def Let_def ratioX_def ratioY_def)
  have zero: "\<not> isFinite (a / Fin 0)" "\<not> isFinite (a / NZero)" for a
    by (cases a; simp)+
  have signs: "ratioX (srcRect\<lparr>Rect.w := Fin 0\<rparr>) (finRect 10 10 50 50) = PInf"
    "ratioX (srcRect\<lparr>Rect.w := NZero\<rparr>) (finRect 10 10 50 50) = NInf"
    "ratioX (srcRect\<lparr>Rect.w := Fin 0\<rparr>) (finRect 10 10 0 50) = NaN"
    by (simp_all add: ratioX_def finRect_def)
  from payload zero signs show ?thesis
    by (simp add: ratioX_def ratioY_def)
qed

text \<open>
  A source rect of width and height zero is not rejected: the payload is produced, and
  its scale factor is \<open>Infinity\<close>.
\<close>

theorem C3_counterexample:
  "Rect.w (finRect 0 0 0 0) = Fin 0
   \<and> computePayload
       (Some \<lparr>SourceData.name = ''SRC'', nodeId = ''n1'', handleId = ''source-out-0'',
              SourceData.layers = [], originalBounds = finRect 0 0 0 0, aiStrategy = None\<rparr>)
       (Some \<lparr>TargetData.name = ''BG'', TargetData.bounds = finRect 10 10 50 50\<rparr>)
     = Some \<lparr>status = success, sourceNodeId = ''n1'', sourceContainer = ''SRC'',
             targetContainer = ''BG'', TransformedPayload.layers = [], scaleFactor = PInf,
             metrics = \<lparr>Metrics.source = \<lparr>Size.w = Fin 0, h = Fin 0\<rparr>,
                        Metrics.target = \<lparr>Size.w = Fin 50, h = Fin 50\<rparr>\<rparr>\<rparr>"
  by (simp add: computePayload_def resolveEnv_def Let_def ratioX_def ratioY_def finRect_def
      transformLayers.simps)

section \<open>The small instance, evaluated\<close>

lemmas demo_defs = demoEnv_def demoStrategy_def demoOverride_def demoTree_def demoE_def demoD_def

lemma demoEnv_eq:
  "demoEnv = \<lparr>sourceRect = finRect 0 0 100 200, targetRect = finRect 10 10 50 50,
      scale = Fin (1 / 4), anchorX = Fin (45 / 2), anchorY = Fin 10,
      strategy = Some demoStrategy\<rparr>"
  by (simp add: demoEnv_def resolveEnv_def Let_def finRect_def demoStrategy_def)

lemma demo_out:
  "transformLayers demoEnv demoTree (Fin 0) (Fin 0) =
     [LayerNode ''E'' ''group'' Group
        (Some [LayerNode ''D'' ''leaf'' Layer None True (Fin 1) (finRect 15 (123 / 2) (5 / 2) (5 / 2))
                 \<lparr>scaleX = Fin (1 / 4), scaleY = Fin (1 / 4), offsetX = Fin 15,
                  offsetY = Fin (123 / 2)\<rparr>])
        True (Fin 1) (finRect 15 (123 / 2) 25 50)
        \<lparr>scaleX = Fin (1 / 4), scaleY = Fin (1 / 4), offsetX = Fin 15, offsetY = Fin (123 / 2)\<rparr>]"
  unfolding demoEnv_eq
  by (simp add: demoTree_def demoE_def demoD_def demoStrategy_def demoOverride_def transformLayer_def body_defs finRect_def)

section \<open>Shape and offsets\<close>

text \<open>
  Claim C7.  The output of the transformer has the identifiers, the kinds and the order
  of the children of its input, with one output element for each input element; and in
  every output element, at any depth, the offsets of the transform record are the final
  top-left position of the element.
\<close>

theorem C7_shape_and_offsets:
  "map shapeOf (transformLayers env ls dx dy) = map shapeOf ls
   \<and> length (allLayers (transformLayers env ls dx dy)) = length (allLayers ls)
   \<and> (\<forall>t\<in>set (allLayers (transformLayers env ls dx dy)).
         offsetX (transform t) = x (coords t) \<and> offsetY (transform t) = y (coords t))"
proof -
  have "offsetX (transform t) = x (coords t) \<and> offsetY (transform t) = y (coords t)"
    if "t \<in> set (allLayers (transformLayers env ls dx dy))" for t
  proof (rule allLayers_transform_all
      [where R = "\<lambda>l ey. True"
         and Q = "\<lambda>t. offsetX (transform t) = x (coords t) \<and> offsetY (transform t) = y (coords t)"
         and env = env and ls = ls and dy = dy and dx = dx and t = t])
    show "t \<in> set (allLayers (transformLayers env ls dx dy))" by (rule that)
  qed simp_all
  then show ?thesis
    by (simp add: shape_preserved length_allLayers_transform)
qed

text \<open>
  In the small instance the group \<open>E\<close> is moved by its override: its offsets are its
  final position \<open>(15, 61.5)\<close>, not the delta \<open>(-7.5, 1000)\<close> that its child inherits.
\<close>

theorem C7_shape_and_offsets_witness:
  "map shapeOf (transformLayers demoEnv demoTree (Fin 0) (Fin 0)) =
     [Shape ''E'' Group (Some [Shape ''D'' Layer None])]
   \<and> map (\<lambda>t. (offsetX (transform t), offsetY (transform t), x (coords t), y (coords t)))
       (allLayers (transformLayers demoEnv demoTree (Fin 0) (Fin 0))) =
     [(Fin 15, Fin (123 / 2), Fin 15, Fin (123 / 2)),
      (Fin 15, Fin (123 / 2), Fin 15, Fin (123 / 2))]
   \<and> currentDeltaX demoEnv (hd demoTree) (Fin 0) = Fin (- (15 / 2))
   \<and> currentDeltaY demoEnv (hd demoTree) (Fin 0) = Fin 1000"
proof -
  have "currentDeltaX demoEnv (hd demoTree) (Fin 0) = Fin (- (15 / 2))"
    and "currentDeltaY demoEnv (hd demoTree) (Fin 0) = Fin 1000"
    unfolding demoEnv_eq
    by (simp_all add: demoTree_def demoE_def demoD_def demoStrategy_def demoOverride_def body_defs finRect_def)
  moreover have "map shapeOf (transformLayers demoEnv demoTree (Fin 0) (Fin 0)) =
     [Shape ''E'' Group (Some [Shape ''D'' Layer None])]"
    using C7_shape_and_offsets [of demoEnv demoTree "Fin 0" "Fin 0"]
    by (simp add: demoTree_def demoE_def demoD_def)
  moreover have "map (\<lambda>t. (offsetX (transform t), offsetY (transform t), x (coords t), y (coords t)))
       (allLayers (transformLayers demoEnv demoTree (Fin 0) (Fin 0))) =
     [(Fin 15, Fin (123 / 2), Fin 15, Fin (123 / 2)),
      (Fin 15, Fin (123 / 2), Fin 15, Fin (123 / 2))]"
    by (simp add: demo_out allLayers_def finRect_def)
  ultimately show ?thesis by simp
qed

section \<open>The vertical clamp\<close>

lemma resolveEnv_sel [simp]:
  "sourceRect (resolveEnv S T st) = S"
  "targetRect (resolveEnv S T st) = T"
  "strategy (resolveEnv S T st) = st"
  by (cases st; simp add: resolveEnv_def Let_def)+

lemma x_not_clamped:
  "map (\<lambda>t. x (coords t)) (transformLayers env ls dx dy) =
     map (\<lambda>l. case override env l of
                 None \<Rightarrow> geomX env l + dx
               | Some ov \<Rightarrow> x (targetRect env) + xOffset ov) ls"
  by (auto simp: transformLayers_map [of env ls dx dy] finalX_def aiX_def split: option.split)

lemma y_is_clamp:
  "y (coords (transformLayer env l dx dy)) =
     Math_max (minY env)
       (Math_min
          (case override env l of
             None \<Rightarrow> geomY env l + dy
           | Some ov \<Rightarrow> y (targetRect env) + yOffset ov)
          (maxY env))"
  by (cases "override env l") (simp_all add: finalY_def finalY_unclamped_def aiY_def)

lemma clamped_or_NaN:
  assumes "minY env \<le> maxY env"
    and "t \<in> set (allLayers (transformLayers env ls dx dy))"
  shows "y (coords t) = NaN \<or> (minY env \<le> y (coords t) \<and> y (coords t) \<le> maxY env)"
proof (rule allLayers_transform_all
    [where R = "\<lambda>l ey. True"
       and Q = "\<lambda>t. y (coords t) = NaN \<or> (minY env \<le> y (coords t) \<and> y (coords t) \<le> maxY env)"
       and env = env and ls = ls and dy = dy and dx = dx and t = t])
  show "t \<in> set (allLayers (transformLayers env ls dx dy))" by (rule assms(2))
next
  fix l :: SerializableLayer and ex ey
  let ?v = "case override env l of
              None \<Rightarrow> geomY env l + ey
            | Some ov \<Rightarrow> y (targetRect env) + yOffset ov"
  show "y (coords (transformLayer env l ex ey)) = NaN \<or>
        (minY env \<le> y (coords (transformLayer env l ex ey)) \<and>
         y (coords (transformLayer env l ex ey)) \<le> maxY env)"
  proof (cases "?v = NaN")
    case True
    then show ?thesis
      unfolding y_is_clamp using clamp_NaN [OF assms(1), of ?v] by simp
  next
    case False
    then show ?thesis
      unfolding y_is_clamp
      using clamp_lower [OF assms(1) False] clamp_upper [OF assms(1) False] by simp
  qed
qed simp_all

text \<open>
  Claim C6, with the conditions under which it holds.  The bounds are the two values
  that the program computes, \<open>targetRect.y - targetRect.h * p\<close> and
  \<open>targetRect.y + targetRect.h + targetRect.h * p\<close> with \<open>p\<close> the constant
  \<open>MAX_BOUNDARY_VIOLATION_PERCENT\<close>.  When the first is at most the second, every
  element of the output, at any depth, has a final \<open>y\<close> that is \<open>NaN\<close> or lies between
  them; and in every call the final \<open>y\<close> of an element is \<open>NaN\<close> exactly when its
  \<open>y\<close> before the clamp is.  The final \<open>x\<close> of an element is never clamped: in every
  call it is the geometric position plus the inherited delta, or the position that the
  override gives.
\<close>

theorem C6_vertical_clamp:
  assumes "y (targetRect env) - Rect.h (targetRect env) * MAX_BOUNDARY_VIOLATION_PERCENT
        \<le> y (targetRect env) + Rect.h (targetRect env)
            + Rect.h (targetRect env) * MAX_BOUNDARY_VIOLATION_PERCENT"
  shows "(\<forall>t\<in>set (allLayers (transformLayers env ls dx dy)).
          y (coords t) = NaN
          \<or> (y (targetRect env) - Rect.h (targetRect env) * MAX_BOUNDARY_VIOLATION_PERCENT
                \<le> y (coords t)
              \<and> y (coords t)
                \<le> y (targetRect env) + Rect.h (targetRect env)
                    + Rect.h (targetRect env) * MAX_BOUNDARY_VIOLATION_PERCENT))
     \<and> map (\<lambda>t. y (coords t) = NaN) (transformLayers env ls' dx' dy') =
         map (\<lambda>l. (case override env l of
                      None \<Rightarrow> geomY env l + dy'
                    | Some ov \<Rightarrow> y (targetRect env) + yOffset ov) = NaN) ls'
     \<and> map (\<lambda>t. x (coords t)) (transformLayers env ls' dx' dy') =
         map (\<lambda>l. case override env l of
                     None \<Rightarrow> geomX env l + dx'
                   | Some ov \<Rightarrow> x (targetRect env) + xOffset ov) ls'"
proof -
  have ord: "minY env \<le> maxY env"
    using assms by (simp add: minY_def maxY_def bleedY_def)
  have lo: "minY env =
      y (targetRect env) - Rect.h (targetRect env) * MAX_BOUNDARY_VIOLATION_PERCENT"
    by (simp add: minY_def bleedY_def)
  have hi: "maxY env =
      y (targetRect env) + Rect.h (targetRect env)
        + Rect.h (targetRect env) * MAX_BOUNDARY_VIOLATION_PERCENT"
    by (simp add: maxY_def bleedY_def)
  have a: "\<forall>t\<in>set (allLayers (transformLayers env ls dx dy)).
      y (coords t) = NaN \<or> (minY env \<le> y (coords t) \<and> y (coords t) \<le> maxY env)"
    using clamped_or_NaN [OF ord] by blast
  have b: "map (\<lambda>t. y (coords t) = NaN) (transformLayers env ls' dx' dy') =
         map (\<lambda>l. (case override env l of
                      None \<Rightarrow> geomY env l + dy'
                    | Some ov \<Rightarrow> y (targetRect env) + yOffset ov) = NaN) ls'"
    by (simp add: transformLayers_map [of env ls' dx' dy'] y_is_clamp clamp_NaN [OF ord]
        del: transformLayer_sel)
  from a b x_not_clamped [of env ls' dx' dy'] show ?thesis
    unfolding lo hi by blast
qed

text \<open>
  In the small instance the bounds are \<open>8.5\<close> and \<open>61.5\<close>, and both elements end at the
  upper one.
\<close>

theorem C6_vertical_clamp_witness:
  "y (targetRect demoEnv) - Rect.h (targetRect demoEnv) * MAX_BOUNDARY_VIOLATION_PERCENT
     = Fin (17 / 2)
   \<and> y (targetRect demoEnv) + Rect.h (targetRect demoEnv)
       + Rect.h (targetRect demoEnv) * MAX_BOUNDARY_VIOLATION_PERCENT = Fin (123 / 2)
   \<and> Fin (17 / 2) \<le> Fin (123 / 2)
   \<and> list_all
       (\<lambda>t. y (coords t) = NaN
            \<or> (Fin (17 / 2) \<le> y (coords t) \<and> y (coords t) \<le> Fin (123 / 2)))
       (allLayers (transformLayers demoEnv demoTree (Fin 0) (Fin 0)))
   \<and> map (\<lambda>t. y (coords t)) (allLayers (transformLayers demoEnv demoTree (Fin 0) (Fin 0))) =
       [Fin (123 / 2), Fin (123 / 2)]"
proof -
  have lo: "y (targetRect demoEnv) - Rect.h (targetRect demoEnv) * MAX_BOUNDARY_VIOLATION_PERCENT
     = Fin (17 / 2)"
    by (simp add: demoEnv_def finRect_def MAX_BOUNDARY_VIOLATION_PERCENT_def)
  have hi: "y (targetRect demoEnv) + Rect.h (targetRect demoEnv)
       + Rect.h (targetRect demoEnv) * MAX_BOUNDARY_VIOLATION_PERCENT = Fin (123 / 2)"
    by (simp add: demoEnv_def finRect_def MAX_BOUNDARY_VIOLATION_PERCENT_def)
  have ord: "Fin (17 / 2) \<le> Fin (123 / 2)" by simp
  have hyp: "y (targetRect demoEnv) - Rect.h (targetRect demoEnv) * MAX_BOUNDARY_VIOLATION_PERCENT
        \<le> y (targetRect demoEnv) + Rect.h (targetRect demoEnv)
            + Rect.h (targetRect demoEnv) * MAX_BOUNDARY_VIOLATION_PERCENT"
    unfolding lo hi by (rule ord)
  have ys: "map (\<lambda>t. y (coords t)) (allLayers (transformLayers demoEnv demoTree (Fin 0) (Fin 0))) =
       [Fin (123 / 2), Fin (123 / 2)]"
    by (simp add: demo_out allLayers_def finRect_def)
  from C6_vertical_clamp [OF hyp, of demoTree "Fin 0" "Fin 0"]
  have "list_all
       (\<lambda>t. y (coords t) = NaN
            \<or> (Fin (17 / 2) \<le> y (coords t) \<and> y (coords t) \<le> Fin (123 / 2)))
       (allLayers (transformLayers demoEnv demoTree (Fin 0) (Fin 0)))"
    unfolding lo hi list_all_iff by blast
  with lo hi ord ys show ?thesis by blast
qed

text \<open>
  A source rect of height zero, which nothing rejects, makes the relative position of a
  layer \<open>NaN\<close>; the clamp returns \<open>NaN\<close>, which is not within the bounds.
\<close>

theorem C6_counterexample:
  "\<not> (\<forall>t\<in>set (allLayers
            (transformLayers (resolveEnv (finRect 0 0 100 0) (finRect 10 10 50 50) None)
               [LayerNode ''L'' ''leaf'' Layer None True (Fin 1) (finRect 0 0 10 10) ()]
               (Fin 0) (Fin 0))).
          Fin 10 - Fin 50 * MAX_BOUNDARY_VIOLATION_PERCENT \<le> y (coords t)
          \<and> y (coords t) \<le> Fin 10 + Fin 50 * (Fin 1 + MAX_BOUNDARY_VIOLATION_PERCENT))"
  by (simp add: resolveEnv_def Let_def ratioX_def ratioY_def finRect_def transformLayer_def
      body_defs allLayers_def)

section \<open>Overrides and the inherited delta\<close>

lemma transformLayers_nth:
  "i < length ls \<Longrightarrow> transformLayers env ls dx dy ! i = transformLayer env (ls ! i) dx dy"
  by (simp add: transformLayers_map [of env ls dx dy])

lemma length_transformLayers [simp]: "length (transformLayers env ls dx dy) = length ls"
  by (simp add: transformLayers_map [of env ls dx dy])

lemma plain_delta:
  "override env l = None \<Longrightarrow> currentDeltaX env l dx = dx \<and> currentDeltaY env l dy = dy"
  by (simp add: currentDeltaX_def currentDeltaY_def)

lemma nodeAt_plain:
  "plainPath env ls q \<Longrightarrow> nodeAt ls q = Some d \<Longrightarrow>
     nodeAt (transformLayers env ls dx dy) q = Some (transformLayer env d dx dy)"
proof (induction ls q rule: nodeAt.induct)
  case (1 ls)
  then show ?case by simp
next
  case (2 ls i)
  then show ?case by (auto simp: transformLayers_nth split: if_splits)
next
  case (3 ls i j p)
  from "3.prems" obtain cs where i: "i < length ls" and ov: "override env (ls ! i) = None"
    and cs: "LayerNode.children (ls ! i) = Some cs" and pp: "plainPath env cs (j # p)"
    and d: "nodeAt cs (j # p) = Some d"
    by (auto split: option.splits if_splits)
  from "3.IH" [OF i cs pp d]
  have "nodeAt (transformLayers env cs dx dy) (j # p) = Some (transformLayer env d dx dy)" .
  then show ?case using i ov cs
    by (simp add: transformLayers_nth plain_delta)
qed

lemma plainPath_last:
  "plainPath env ls q \<Longrightarrow> nodeAt ls q = Some d \<Longrightarrow> override env d = None"
  by (induction ls q rule: nodeAt.induct) (auto split: option.splits if_splits)

lemma override_transform:
  assumes "override env e = Some ov"
  shows "transformLayers env [e] dx dy =
        [LayerNode (LayerNode.id' e) (LayerNode.name e) (type' e)
           (map_option
              (\<lambda>cs. transformLayers env cs
                 ((x (targetRect env) + xOffset ov) - geomX env e)
                 ((y (targetRect env) + yOffset ov) - geomY env e))
              (LayerNode.children e))
           (isVisible e) (LayerNode.opacity e)
           \<lparr>x = x (targetRect env) + xOffset ov,
            y = Math_max (minY env) (Math_min (y (targetRect env) + yOffset ov) (maxY env)),
            w = Rect.w (coords e) * (scale env * individualScale ov),
            h = Rect.h (coords e) * (scale env * individualScale ov)\<rparr>
           \<lparr>scaleX = scale env * individualScale ov,
            scaleY = scale env * individualScale ov,
            offsetX = x (targetRect env) + xOffset ov,
            offsetY = Math_max (minY env) (Math_min (y (targetRect env) + yOffset ov) (maxY env))\<rparr>]"
  using assms
  by (simp add: transformLayer_def finalX_def finalY_def finalY_unclamped_def aiX_def aiY_def
      currentDeltaX_def currentDeltaY_def layerScaleX_def layerScaleY_def newW_def newH_def)

lemma plain_transform:
  assumes "override env l = None"
  shows "transformLayers env [l] dx dy =
        [LayerNode (LayerNode.id' l) (LayerNode.name l) (type' l)
           (map_option (\<lambda>cs. transformLayers env cs dx dy) (LayerNode.children l))
           (isVisible l) (LayerNode.opacity l)
           \<lparr>x = geomX env l + dx,
            y = Math_max (minY env) (Math_min (geomY env l + dy) (maxY env)),
            w = Rect.w (coords l) * scale env,
            h = Rect.h (coords l) * scale env\<rparr>
           \<lparr>scaleX = scale env, scaleY = scale env,
            offsetX = geomX env l + dx,
            offsetY = Math_max (minY env) (Math_min (geomY env l + dy) (maxY env))\<rparr>]"
  using assms
  by (simp add: transformLayer_def finalX_def finalY_def finalY_unclamped_def
      currentDeltaX_def currentDeltaY_def layerScaleX_def layerScaleY_def newW_def newH_def)

lemma descendant_of_override:
  assumes ov: "override env e = Some ov"
    and cs: "LayerNode.children e = Some cs"
    and pp: "plainPath env cs q" and d: "nodeAt cs q = Some d"
  shows "\<exists>d'. nodeAt (transformLayers env [e] dx dy) (0 # q) = Some d'
      \<and> x (coords d') = geomX env d + ((x (targetRect env) + xOffset ov) - geomX env e)
      \<and> y (coords d') =
          Math_max (minY env)
            (Math_min (geomY env d + ((y (targetRect env) + yOffset ov) - geomY env e))
               (maxY env))"
proof -
  let ?cx = "(x (targetRect env) + xOffset ov) - geomX env e"
  let ?cy = "(y (targetRect env) + yOffset ov) - geomY env e"
  from pp obtain j p where q: "q = j # p" by (cases q) auto
  have none: "override env d = None" by (rule plainPath_last [OF pp d])
  have "nodeAt (transformLayers env cs ?cx ?cy) q = Some (transformLayer env d ?cx ?cy)"
    by (rule nodeAt_plain [OF pp d])
  then have "nodeAt (transformLayers env [e] dx dy) (0 # q) = Some (transformLayer env d ?cx ?cy)"
    unfolding override_transform [OF ov] q by (simp add: cs)
  moreover have "x (coords (transformLayer env d ?cx ?cy)) = geomX env d + ?cx"
    using none by (simp add: finalX_def)
  moreover have "y (coords (transformLayer env d ?cx ?cy)) =
      Math_max (minY env) (Math_min (geomY env d + ?cy) (maxY env))"
    using none by (simp add: finalY_def finalY_unclamped_def)
  ultimately show ?thesis by blast
qed

lemma scenarioEnv_eq:
  "scenarioEnv = \<lparr>sourceRect = finRect 0 0 100 200, targetRect = finRect 10 10 50 50,
      scale = Fin (1 / 4), anchorX = Fin (45 / 2), anchorY = Fin 10,
      strategy = Some scenarioStrategy\<rparr>"
  by (simp add: scenarioEnv_def resolveEnv_def Let_def finRect_def scenarioStrategy_def)

lemma scenario_root:
  "map coords (transformLayers scenarioEnv
       [LayerNode ''E'' n t c v opa (finRect 0 0 100 200) ()] (Fin 0) (Fin 0))
     = [finRect 15 15 50 100]"
  unfolding scenarioEnv_eq
  by (simp add: scenarioStrategy_def transformLayer_def body_defs finRect_def)

lemma dupEnv_eq:
  "dupEnv = \<lparr>sourceRect = finRect 0 0 100 200, targetRect = finRect 10 10 50 50,
      scale = Fin (1 / 4), anchorX = Fin (45 / 2), anchorY = Fin 10,
      strategy = Some dupStrategy\<rparr>"
  by (simp add: dupEnv_def resolveEnv_def Let_def finRect_def dupStrategy_def)

text \<open>
  Claim C9.  The delta that the children of an element inherit is computed from the
  position of the element before the clamp: for an element with an override it is the
  position that the override gives minus the geometric position, and for an element
  without one it is the delta that the element inherited; the clamped \<open>y\<close> of the
  element does not occur in it.  The children are then clamped on their own.
\<close>

theorem C9_delta_before_clamp:
  "map LayerNode.children (transformLayers env ls dx dy) =
     map (\<lambda>l. map_option
            (\<lambda>cs. transformLayers env cs
               (case override env l of
                  None \<Rightarrow> dx
                | Some ov \<Rightarrow> (x (targetRect env) + xOffset ov) - geomX env l)
               (case override env l of
                  None \<Rightarrow> dy
                | Some ov \<Rightarrow> (y (targetRect env) + yOffset ov) - geomY env l))
            (LayerNode.children l)) ls
   \<and> map (\<lambda>t. y (coords t)) (transformLayers env ls dx dy) =
     map (\<lambda>l. Math_max (minY env)
            (Math_min
               (case override env l of
                  None \<Rightarrow> geomY env l + dy
                | Some ov \<Rightarrow> y (targetRect env) + yOffset ov)
               (maxY env))) ls"
proof -
  have "LayerNode.children (transformLayer env l dx dy) =
      map_option
            (\<lambda>cs. transformLayers env cs
               (case override env l of
                  None \<Rightarrow> dx
                | Some ov \<Rightarrow> (x (targetRect env) + xOffset ov) - geomX env l)
               (case override env l of
                  None \<Rightarrow> dy
                | Some ov \<Rightarrow> (y (targetRect env) + yOffset ov) - geomY env l))
            (LayerNode.children l)" for l
    by (cases "override env l") (simp_all add: currentDeltaX_def currentDeltaY_def aiX_def aiY_def)
  moreover have "y (coords (transformLayer env l dx dy)) =
      Math_max (minY env)
            (Math_min
               (case override env l of
                  None \<Rightarrow> geomY env l + dy
                | Some ov \<Rightarrow> y (targetRect env) + yOffset ov)
               (maxY env))" for l
    by (cases "override env l") (simp_all add: finalY_def finalY_unclamped_def aiY_def)
  ultimately show ?thesis
    by (simp add: transformLayers_map [of env ls dx dy])
qed

text \<open>
  In the small instance the override puts \<open>E\<close> at \<open>y = 1010\<close>, the clamp brings it to
  \<open>61.5\<close>, and its child is transformed with the vertical delta \<open>1000 = 1010 - 10\<close>.
\<close>

theorem C9_delta_before_clamp_witness:
  "map (\<lambda>t. y (coords t)) (transformLayers demoEnv [demoE] (Fin 0) (Fin 0)) = [Fin (123 / 2)]
   \<and> y (targetRect demoEnv) + yOffset demoOverride = Fin 1010
   \<and> map LayerNode.children (transformLayers demoEnv [demoE] (Fin 0) (Fin 0)) =
       [Some (transformLayers demoEnv [demoD] (Fin (- (15 / 2))) (Fin 1000))]"
proof -
  have ov: "override demoEnv demoE = Some demoOverride"
    by (simp add: override_def demoEnv_def demoStrategy_def demoOverride_def demoE_def)
  have g: "geomX demoEnv demoE = Fin (45 / 2)" "geomY demoEnv demoE = Fin 10"
    unfolding demoEnv_eq by (simp_all add: body_defs demoE_def finRect_def)
  have t: "x (targetRect demoEnv) = Fin 10" "y (targetRect demoEnv) = Fin 10"
    by (simp_all add: demoEnv_def finRect_def)
  have b: "minY demoEnv = Fin (17 / 2)" "maxY demoEnv = Fin (123 / 2)"
    by (simp_all add: minY_def maxY_def bleedY_def MAX_BOUNDARY_VIOLATION_PERCENT_def
        demoEnv_def finRect_def)
  have c: "LayerNode.children demoE = Some [demoD]" by (simp add: demoE_def)
  show ?thesis
    using C9_delta_before_clamp [of demoEnv "[demoE]" "Fin 0" "Fin 0"]
    by (simp add: ov g t b c demoOverride_def)
qed

text \<open>
  Claim C10.  When several overrides of the strategy name the identifier of an element,
  the first one in the order of the list is applied, whatever follows it: it alone
  decides the position, the scale and the delta of the children of the element.
\<close>

theorem C10_first_match_wins:
  assumes "strategy env = Some s" and "overrides s = Some (pre @ ov # post)"
    and "layerId ov = LayerNode.id' l" and "\<forall>p\<in>set pre. layerId p \<noteq> LayerNode.id' l"
  shows "override env l = Some ov
     \<and> transformLayers env [l] dx dy =
        [LayerNode (LayerNode.id' l) (LayerNode.name l) (type' l)
           (map_option
              (\<lambda>cs. transformLayers env cs
                 ((x (targetRect env) + xOffset ov) - geomX env l)
                 ((y (targetRect env) + yOffset ov) - geomY env l))
              (LayerNode.children l))
           (isVisible l) (LayerNode.opacity l)
           \<lparr>x = x (targetRect env) + xOffset ov,
            y = Math_max (minY env) (Math_min (y (targetRect env) + yOffset ov) (maxY env)),
            w = Rect.w (coords l) * (scale env * individualScale ov),
            h = Rect.h (coords l) * (scale env * individualScale ov)\<rparr>
           \<lparr>scaleX = scale env * individualScale ov,
            scaleY = scale env * individualScale ov,
            offsetX = x (targetRect env) + xOffset ov,
            offsetY = Math_max (minY env) (Math_min (y (targetRect env) + yOffset ov) (maxY env))\<rparr>]"
proof -
  have "find (\<lambda>c. layerId c = LayerNode.id' l) (pre @ ov # post) = Some ov"
    using assms(3,4) by (induction pre) auto
  then have o: "override env l = Some ov"
    using assms(1,2) by (simp add: override_def)
  then show ?thesis
    by (simp add: transformLayer_def finalX_def finalY_def finalY_unclamped_def aiX_def aiY_def
        currentDeltaX_def currentDeltaY_def layerScaleX_def layerScaleY_def newW_def newH_def)
qed


text \<open>
  With two overrides for \<open>E\<close> after one for another layer, the first of the two is
  applied.
\<close>

theorem C10_first_match_wins_witness:
  "strategy dupEnv = Some dupStrategy
   \<and> overrides dupStrategy =
       Some ([\<lparr>layerId = ''other'', xOffset = Fin 1, yOffset = Fin 1, individualScale = Fin 1\<rparr>]
             @ \<lparr>layerId = ''E'', xOffset = Fin 5, yOffset = Fin 5, individualScale = Fin 2\<rparr>
             # [\<lparr>layerId = ''E'', xOffset = Fin 7, yOffset = Fin 9, individualScale = Fin 3\<rparr>])
   \<and> map coords (transformLayers dupEnv [demoE] (Fin 0) (Fin 0)) = [finRect 15 15 50 100]
   \<and> map transform (transformLayers dupEnv [demoE] (Fin 0) (Fin 0)) =
       [\<lparr>scaleX = Fin (1 / 2), scaleY = Fin (1 / 2), offsetX = Fin 15, offsetY = Fin 15\<rparr>]"
proof -
  have 1: "strategy dupEnv = Some dupStrategy" by (simp add: dupEnv_def)
  have 2: "overrides dupStrategy =
       Some ([\<lparr>layerId = ''other'', xOffset = Fin 1, yOffset = Fin 1, individualScale = Fin 1\<rparr>]
             @ \<lparr>layerId = ''E'', xOffset = Fin 5, yOffset = Fin 5, individualScale = Fin 2\<rparr>
             # [\<lparr>layerId = ''E'', xOffset = Fin 7, yOffset = Fin 9, individualScale = Fin 3\<rparr>])"
    by (simp add: dupStrategy_def)
  have 3: "layerId \<lparr>layerId = ''E'', xOffset = Fin 5, yOffset = Fin 5, individualScale = Fin 2\<rparr>
      = LayerNode.id' demoE" by (simp add: demoE_def)
  have 4: "\<forall>p\<in>set [\<lparr>layerId = ''other'', xOffset = Fin 1, yOffset = Fin 1, individualScale = Fin 1\<rparr>].
      layerId p \<noteq> LayerNode.id' demoE" by (simp add: demoE_def)
  have b: "minY dupEnv = Fin (17 / 2)" "maxY dupEnv = Fin (123 / 2)"
    by (simp_all add: minY_def maxY_def bleedY_def MAX_BOUNDARY_VIOLATION_PERCENT_def
        dupEnv_def finRect_def)
  have t: "x (targetRect dupEnv) = Fin 10" "y (targetRect dupEnv) = Fin 10"
      "scale dupEnv = Fin (1 / 4)"
    by (simp_all add: dupEnv_eq finRect_def)
  have c: "coords demoE = finRect 0 0 100 200" by (simp add: demoE_def)
  from C10_first_match_wins [OF 1 2 3 4, of "Fin 0" "Fin 0"]
  have "map coords (transformLayers dupEnv [demoE] (Fin 0) (Fin 0)) = [finRect 15 15 50 100]"
    and "map transform (transformLayers dupEnv [demoE] (Fin 0) (Fin 0)) =
       [\<lparr>scaleX = Fin (1 / 2), scaleY = Fin (1 / 2), offsetX = Fin 15, offsetY = Fin 15\<rparr>]"
    by (simp_all add: b t c finRect_def)
  with 1 2 show ?thesis by simp
qed


text \<open>
  Claim C5, as the program has it.  For an element \<open>e\<close> whose identifier an override
  matches: the final \<open>x\<close> is \<open>targetRect.x + xOffset\<close>; the final \<open>y\<close> is
  \<open>targetRect.y + yOffset\<close> brought into the bounds of the clamp; the scale is the base
  scale times \<open>individualScale\<close>; and the children are transformed with the delta
  \<open>(targetRect.x + xOffset - geomX, targetRect.y + yOffset - geomY)\<close>.  An element
  without an override hands the delta that it inherited to its children.  Hence a
  descendant \<open>d\<close> of \<open>e\<close>, when neither \<open>d\<close> nor an element between \<open>e\<close> and \<open>d\<close>
  has an override, has for final \<open>x\<close> its geometric \<open>x\<close> plus the delta of \<open>e\<close>, and for
  final \<open>y\<close> its geometric \<open>y\<close> plus the delta of \<open>e\<close> brought into the bounds of the
  clamp.  In the scenario, with the scale \<open>0.25\<close> for the strategy, the root gets the
  position \<open>(15, 15)\<close> and the size \<open>{50, 100}\<close>.
\<close>

theorem C5_override_and_delta:
  assumes "override env e = Some ov"
  shows "map coords (transformLayers env [e] dx dy) =
       [\<lparr>x = x (targetRect env) + xOffset ov,
         y = Math_max (minY env) (Math_min (y (targetRect env) + yOffset ov) (maxY env)),
         w = Rect.w (coords e) * (scale env * individualScale ov),
         h = Rect.h (coords e) * (scale env * individualScale ov)\<rparr>]
     \<and> map (\<lambda>t. (scaleX (transform t), scaleY (transform t))) (transformLayers env [e] dx dy) =
       [(scale env * individualScale ov, scale env * individualScale ov)]
     \<and> map LayerNode.children (transformLayers env [e] dx dy) =
       [map_option
          (\<lambda>cs. transformLayers env cs
             ((x (targetRect env) + xOffset ov) - geomX env e)
             ((y (targetRect env) + yOffset ov) - geomY env e))
          (LayerNode.children e)]
     \<and> (override env l = None \<longrightarrow>
          map LayerNode.children (transformLayers env [l] dx dy) =
            [map_option (\<lambda>cs. transformLayers env cs dx dy) (LayerNode.children l)])
     \<and> (LayerNode.children e = Some cs \<and> plainPath env cs q \<and> nodeAt cs q = Some d \<longrightarrow>
          (\<exists>d'. nodeAt (transformLayers env [e] dx dy) (0 # q) = Some d'
             \<and> x (coords d') = geomX env d + ((x (targetRect env) + xOffset ov) - geomX env e)
             \<and> y (coords d') =
                 Math_max (minY env)
                   (Math_min (geomY env d + ((y (targetRect env) + yOffset ov) - geomY env e))
                      (maxY env))))
     \<and> map coords (transformLayers scenarioEnv
          [LayerNode ''E'' n t c v opa (finRect 0 0 100 200) ()] (Fin 0) (Fin 0))
        = [finRect 15 15 50 100]"
proof -
  note ot = override_transform [OF assms, of dx dy]
  have a: "map coords (transformLayers env [e] dx dy) =
       [\<lparr>x = x (targetRect env) + xOffset ov,
         y = Math_max (minY env) (Math_min (y (targetRect env) + yOffset ov) (maxY env)),
         w = Rect.w (coords e) * (scale env * individualScale ov),
         h = Rect.h (coords e) * (scale env * individualScale ov)\<rparr>]"
    unfolding ot by simp
  have b: "map (\<lambda>t. (scaleX (transform t), scaleY (transform t))) (transformLayers env [e] dx dy) =
       [(scale env * individualScale ov, scale env * individualScale ov)]"
    unfolding ot by simp
  have c: "map LayerNode.children (transformLayers env [e] dx dy) =
       [map_option
          (\<lambda>cs. transformLayers env cs
             ((x (targetRect env) + xOffset ov) - geomX env e)
             ((y (targetRect env) + yOffset ov) - geomY env e))
          (LayerNode.children e)]"
    unfolding ot by simp
  have p: "override env l = None \<longrightarrow>
          map LayerNode.children (transformLayers env [l] dx dy) =
            [map_option (\<lambda>cs. transformLayers env cs dx dy) (LayerNode.children l)]"
  proof
    assume "override env l = None"
    then show "map LayerNode.children (transformLayers env [l] dx dy) =
            [map_option (\<lambda>cs. transformLayers env cs dx dy) (LayerNode.children l)]"
      unfolding plain_transform [of env l dx dy, OF \<open>override env l = None\<close>] by simp
  qed
  have q: "LayerNode.children e = Some cs \<and> plainPath env cs q \<and> nodeAt cs q = Some d \<longrightarrow>
          (\<exists>d'. nodeAt (transformLayers env [e] dx dy) (0 # q) = Some d'
             \<and> x (coords d') = geomX env d + ((x (targetRect env) + xOffset ov) - geomX env e)
             \<and> y (coords d') =
                 Math_max (minY env)
                   (Math_min (geomY env d + ((y (targetRect env) + yOffset ov) - geomY env e))
                      (maxY env)))"
    using descendant_of_override [OF assms, of cs q d dx dy] by blast
  from a b c p q scenario_root [of n t c v opa] show ?thesis by blast
qed

theorem C5_override_and_delta_witness:
  "override demoEnv demoE = Some demoOverride
   \<and> override demoEnv demoD = None
   \<and> LayerNode.children demoE = Some [demoD]
   \<and> plainPath demoEnv [demoD] [0]
   \<and> nodeAt [demoD] [0] = Some demoD
   \<and> (\<exists>d'. nodeAt (transformLayers demoEnv [demoE] (Fin 0) (Fin 0)) [0, 0] = Some d'
          \<and> x (coords d') = Fin 15 \<and> y (coords d') = Fin (123 / 2))
   \<and> map LayerNode.children (transformLayers demoEnv [demoD] (Fin 3) (Fin 4)) = [None]"
proof -
  have ov: "override demoEnv demoE = Some demoOverride"
    by (simp add: override_def demoEnv_def demoStrategy_def demoOverride_def demoE_def)
  have none: "override demoEnv demoD = None"
    by (simp add: override_def demoEnv_def demoStrategy_def demoOverride_def demoD_def)
  have cs: "LayerNode.children demoE = Some [demoD]" by (simp add: demoE_def)
  have pp: "plainPath demoEnv [demoD] [0]" by (simp add: none)
  have d: "nodeAt [demoD] [0] = Some demoD" by simp
  have g: "geomX demoEnv demoE = Fin (45 / 2)" "geomY demoEnv demoE = Fin 10"
      "geomX demoEnv demoD = Fin (45 / 2)" "geomY demoEnv demoD = Fin 10"
    unfolding demoEnv_eq by (simp_all add: body_defs demoE_def demoD_def finRect_def)
  have t: "x (targetRect demoEnv) = Fin 10" "y (targetRect demoEnv) = Fin 10"
    by (simp_all add: demoEnv_def finRect_def)
  have b: "minY demoEnv = Fin (17 / 2)" "maxY demoEnv = Fin (123 / 2)"
    by (simp_all add: minY_def maxY_def bleedY_def MAX_BOUNDARY_VIOLATION_PERCENT_def
        demoEnv_def finRect_def)
  have k: "LayerNode.children demoD = None" by (simp add: demoD_def)
  have vx: "geomX demoEnv demoD + ((x (targetRect demoEnv) + xOffset demoOverride) - geomX demoEnv demoE)
      = Fin 15"
    by (simp add: g t demoOverride_def)
  have vy: "Math_max (minY demoEnv)
        (Math_min (geomY demoEnv demoD
             + ((y (targetRect demoEnv) + yOffset demoOverride) - geomY demoEnv demoE))
           (maxY demoEnv)) = Fin (123 / 2)"
    by (simp add: g t b demoOverride_def)
  from C5_override_and_delta [OF ov, of "Fin 0" "Fin 0" demoD "[demoD]" "[0]" demoD]
  have "LayerNode.children demoE = Some [demoD] \<and> plainPath demoEnv [demoD] [0]
        \<and> nodeAt [demoD] [0] = Some demoD \<longrightarrow>
      (\<exists>d'. nodeAt (transformLayers demoEnv [demoE] (Fin 0) (Fin 0)) [0, 0] = Some d'
          \<and> x (coords d') =
              geomX demoEnv demoD
                + ((x (targetRect demoEnv) + xOffset demoOverride) - geomX demoEnv demoE)
          \<and> y (coords d') =
              Math_max (minY demoEnv)
                (Math_min (geomY demoEnv demoD
                     + ((y (targetRect demoEnv) + yOffset demoOverride) - geomY demoEnv demoE))
                   (maxY demoEnv)))"
    by blast
  with cs pp d have 1: "\<exists>d'. nodeAt (transformLayers demoEnv [demoE] (Fin 0) (Fin 0)) [0, 0] = Some d'
          \<and> x (coords d') = Fin 15 \<and> y (coords d') = Fin (123 / 2)"
    unfolding vx vy by blast
  from C5_override_and_delta [OF ov, of "Fin 3" "Fin 4" demoD]
  have "override demoEnv demoD = None \<longrightarrow>
      map LayerNode.children (transformLayers demoEnv [demoD] (Fin 3) (Fin 4)) =
        [map_option (\<lambda>cs. transformLayers demoEnv cs (Fin 3) (Fin 4)) (LayerNode.children demoD)]"
    by blast
  with none have 2: "map LayerNode.children (transformLayers demoEnv [demoD] (Fin 3) (Fin 4)) = [None]"
    unfolding k by simp
  from ov none cs pp d 1 2 show ?thesis by blast
qed

text \<open>
  The final \<open>y\<close> is not always \<open>targetRect.y + yOffset\<close>, and a descendant does not
  always land at its geometric position plus the delta: in the small instance both
  values are \<open>1010\<close>, and both elements end at \<open>61.5\<close>.
\<close>

theorem C5_counterexample:
  "override demoEnv demoE = Some demoOverride
   \<and> override demoEnv demoD = None
   \<and> LayerNode.children demoE = Some [demoD]
   \<and> transformLayers demoEnv [demoE] (Fin 0) (Fin 0) =
     [LayerNode ''E'' ''group'' Group
        (Some [LayerNode ''D'' ''leaf'' Layer None True (Fin 1) (finRect 15 (123 / 2) (5 / 2) (5 / 2))
                 \<lparr>scaleX = Fin (1 / 4), scaleY = Fin (1 / 4), offsetX = Fin 15,
                  offsetY = Fin (123 / 2)\<rparr>])
        True (Fin 1) (finRect 15 (123 / 2) 25 50)
        \<lparr>scaleX = Fin (1 / 4), scaleY = Fin (1 / 4), offsetX = Fin 15, offsetY = Fin (123 / 2)\<rparr>]
   \<and> y (targetRect demoEnv) + yOffset demoOverride = Fin 1010
   \<and> geomY demoEnv demoD + ((y (targetRect demoEnv) + yOffset demoOverride) - geomY demoEnv demoE)
       = Fin 1010
   \<and> \<not> (map (\<lambda>t. y (coords t)) (allLayers (transformLayers demoEnv [demoE] (Fin 0) (Fin 0))) =
          [y (targetRect demoEnv) + yOffset demoOverride,
           geomY demoEnv demoD
             + ((y (targetRect demoEnv) + yOffset demoOverride) - geomY demoEnv demoE)])"
proof -
  have ov: "override demoEnv demoE = Some demoOverride"
    by (simp add: override_def demoEnv_def demoStrategy_def demoOverride_def demoE_def)
  have none: "override demoEnv demoD = None"
    by (simp add: override_def demoEnv_def demoStrategy_def demoOverride_def demoD_def)
  have cs: "LayerNode.children demoE = Some [demoD]" by (simp add: demoE_def)
  have g: "geomY demoEnv demoE = Fin 10" "geomY demoEnv demoD = Fin 10"
    unfolding demoEnv_eq by (simp_all add: body_defs demoE_def demoD_def finRect_def)
  have t: "y (targetRect demoEnv) = Fin 10"
    by (simp add: demoEnv_def finRect_def)
  have out: "transformLayers demoEnv [demoE] (Fin 0) (Fin 0) =
     [LayerNode ''E'' ''group'' Group
        (Some [LayerNode ''D'' ''leaf'' Layer None True (Fin 1) (finRect 15 (123 / 2) (5 / 2) (5 / 2))
                 \<lparr>scaleX = Fin (1 / 4), scaleY = Fin (1 / 4), offsetX = Fin 15,
                  offsetY = Fin (123 / 2)\<rparr>])
        True (Fin 1) (finRect 15 (123 / 2) 25 50)
        \<lparr>scaleX = Fin (1 / 4), scaleY = Fin (1 / 4), offsetX = Fin 15, offsetY = Fin (123 / 2)\<rparr>]"
    using demo_out by (simp add: demoTree_def)
  have ys: "map (\<lambda>t. y (coords t)) (allLayers (transformLayers demoEnv [demoE] (Fin 0) (Fin 0))) =
      [Fin (123 / 2), Fin (123 / 2)]"
    unfolding out by (simp add: allLayers_def finRect_def)
  have v1: "y (targetRect demoEnv) + yOffset demoOverride = Fin 1010"
    by (simp add: t demoOverride_def)
  have v2: "geomY demoEnv demoD + (Fin 1010 - geomY demoEnv demoE) = Fin 1010"
    by (simp add: g)
  have v3: "geomY demoEnv demoD
      + ((y (targetRect demoEnv) + yOffset demoOverride) - geomY demoEnv demoE) = Fin 1010"
    by (simp only: v1 v2)
  have neg: "\<not> (map (\<lambda>t. y (coords t)) (allLayers (transformLayers demoEnv [demoE] (Fin 0) (Fin 0))) =
          [y (targetRect demoEnv) + yOffset demoOverride,
           geomY demoEnv demoD
             + ((y (targetRect demoEnv) + yOffset demoOverride) - geomY demoEnv demoE)])"
    by (simp only: ys v1 v2) simp
  from ov none cs out v1 v3 neg show ?thesis by blast
qed

section \<open>The integrity of the assembly\<close>

lemma stale_template:
  "templateMetadata ''export'' staleEdges staleTemplates = Own (demoTemplate [''BG''])"
  by (simp add: templateMetadata_def staleEdges_def demoEdge_def staleTemplates_def
      oneTemplate_def)

lemma stale_connections:
  "connections ''export'' staleEdges stalePayloads =
     \<lparr>slotConnections = [(''FOO'', demoPayload ''FOO'' [])], validationErrors = []\<rparr>"
  by (simp add: connections_def connectEdge_def staleEdges_def demoEdge_def stalePayloads_def
      onePayload_def payloadOf_def demoPayload_def Let_def)

lemma stale_assembled: "isFullyAssembled ''export'' staleEdges staleTemplates stalePayloads"
  by (simp add: isFullyAssembled_def isTemplateReady_def filledSlots_def totalSlots_def
      stale_template stale_connections containersOf_def demoTemplate_def)

text \<open>
  Claim C1, at an assembly whose only slot is not filled.  The template has the one
  slot \<open>BG\<close>; the only wiring goes into the handle \<^verbatim>\<open>input-FOO\<close> and carries a payload
  that declares \<open>FOO\<close>.  The wiring is recorded under \<open>FOO\<close> and nothing under \<open>BG\<close>;
  \<^verbatim>\<open>filledSlots\<close>, the size of the map, is \<open>1\<close> and equals \<^verbatim>\<open>totalSlots\<close>; there is no
  violation; \<^verbatim>\<open>isFullyAssembled\<close> holds, and \<^verbatim>\<open>handleExport\<close> writes a document without
  any container group.
\<close>

theorem C1_unfilled_slot_exported:
  "templateMetadata ''export'' staleEdges staleTemplates = Own (demoTemplate [''BG''])
   \<and> map ContainerDefinition.name (containers (demoTemplate [''BG''])) = [''BG'']
   \<and> connections ''export'' staleEdges stalePayloads =
       \<lparr>slotConnections = [(''FOO'', demoPayload ''FOO'' [])], validationErrors = []\<rparr>
   \<and> map_of (slotConnections (connections ''export'' staleEdges stalePayloads)) ''BG'' = None
   \<and> filledSlots ''export'' staleEdges stalePayloads = 1
   \<and> totalSlots ''export'' staleEdges staleTemplates = 1
   \<and> isFullyAssembled ''export'' staleEdges staleTemplates stalePayloads
   \<and> handleExport nothingFound ''export'' staleEdges staleTemplates stalePayloads soloPsds =
       Some (Inr \<lparr>width = Fin 100, height = Fin 100, children = Some [],
                  canvasState = None\<rparr>)"
proof -
  have names: "map ContainerDefinition.name (containers (demoTemplate [''BG''])) = [''BG'']"
    by (simp add: demoTemplate_def demoContainer_def)
  have empty: "map_of (slotConnections (connections ''export'' staleEdges stalePayloads)) ''BG''
      = None"
    by (simp add: stale_connections)
  have filled: "filledSlots ''export'' staleEdges stalePayloads = 1"
    by (simp add: filledSlots_def stale_connections)
  have total: "totalSlots ''export'' staleEdges staleTemplates = 1"
    by (simp add: totalSlots_def stale_template containersOf_def demoTemplate_def)
  have build: "finalChildren nothingFound soloPsds [(''FOO'', demoPayload ''FOO'' [])]
      (containers (demoTemplate [''BG''])) [] = Inr []"
    by (simp add: demoTemplate_def demoContainer_def)
  have export: "handleExport nothingFound ''export'' staleEdges staleTemplates stalePayloads
      soloPsds =
       Some (Inr \<lparr>width = Fin 100, height = Fin 100, children = Some [],
                  canvasState = None\<rparr>)"
    by (simp add: handleExport_def stale_template stale_assembled stale_connections build)
       (simp add: demoTemplate_def)
  from stale_template names stale_connections empty filled total stale_assembled export
  show ?thesis by blast
qed

section \<open>Missing original layers\<close>

lemma fold_push:
  "fold (\<lambda>m acc. acc @ g m) ls acc0 = acc0 @ concat (map g ls)"
  by (induction ls arbitrary: acc0) simp_all

lemma reconstructHierarchy_concat:
  "reconstructHierarchy f ls psd =
     concat (map (\<lambda>m. case f psd (LayerNode.id' m) of
                         None \<Rightarrow> []
                       | Some orig \<Rightarrow> [reconstructLayer f psd orig m]) ls)"
proof -
  have "(\<lambda>metaLayer resultLayers.
        case f psd (LayerNode.id' metaLayer) of
          None \<Rightarrow> resultLayers
        | Some originalLayer \<Rightarrow>
            resultLayers @
              [case LayerNode.children metaLayer of
                 None \<Rightarrow> newLayer originalLayer metaLayer
               | Some cs \<Rightarrow>
                   if type' metaLayer = Group
                   then asGroup (newLayer originalLayer metaLayer)
                          (reconstructHierarchy f cs psd)
                   else newLayer originalLayer metaLayer])
     = (\<lambda>m acc. acc @ (case f psd (LayerNode.id' m) of
                         None \<Rightarrow> []
                       | Some orig \<Rightarrow> [reconstructLayer f psd orig m]))"
    by (intro ext) (simp add: reconstructLayer_def split: option.split)
  then show ?thesis
    by (subst reconstructHierarchy.simps) (simp only: fold_push append_Nil)
qed

lemma length_reconstructHierarchy:
  "length (reconstructHierarchy f ls psd) =
     length (filter (\<lambda>m. f psd (LayerNode.id' m) \<noteq> None) ls)"
  unfolding reconstructHierarchy_concat
  by (induction ls) (auto split: option.split)

lemma finalChildren_error:
  "finalChildren f reg slots cs acc = Inl e \<Longrightarrow>
     \<exists>p\<in>snd ` set slots. reg (sourceNodeId p) = None \<and> e = missingPsdMessage (sourceNodeId p)"
proof (induction f reg slots cs acc rule: finalChildren.induct)
  case (1 f reg slots acc)
  then show ?case by simp
next
  case (2 f reg slots container rest acc)
  show ?case
  proof (cases "map_of slots (ContainerDefinition.name container)")
    case None
    with 2 show ?thesis by simp
  next
    case (Some payload)
    then have mem: "payload \<in> snd ` set slots"
      by (force dest: map_of_SomeD)
    show ?thesis
    proof (cases "reg (sourceNodeId payload)")
      case None
      with Some mem "2.prems" show ?thesis by auto
    next
      case (Some sourcePsd)
      with \<open>map_of slots (ContainerDefinition.name container) = Some payload\<close> 2 show ?thesis
        by simp
    qed
  qed
qed

lemma solo_template:
  "templateMetadata ''export'' soloEdges soloTemplates = Own (demoTemplate [''BG''])"
  by (simp add: templateMetadata_def soloEdges_def demoEdge_def soloTemplates_def
      oneTemplate_def)

lemma solo_connections:
  "connections ''export'' soloEdges soloPayloads =
     \<lparr>slotConnections =
        [(''BG'', demoPayload ''BG'' (transformLayers demoEnv demoTree (Fin 0) (Fin 0)))],
      validationErrors = []\<rparr>"
  by (simp add: connections_def connectEdge_def soloEdges_def demoEdge_def soloPayloads_def
      onePayload_def payloadOf_def demoPayload_def Let_def)

lemma solo_assembled: "isFullyAssembled ''export'' soloEdges soloTemplates soloPayloads"
  by (simp add: isFullyAssembled_def isTemplateReady_def filledSlots_def totalSlots_def
      solo_template solo_connections containersOf_def demoTemplate_def)

text \<open>
  Claim C2, as the program has it.  For every transformed element the original layer is
  looked up by the identifier in the source document; an element whose lookup finds
  nothing is left out of the result together with its descendants, and the
  reconstruction goes on with the next element.  The only error of the build is a
  payload whose source document is not in the registry.
\<close>

theorem C2_missing_layer_skipped:
  "reconstructHierarchy f ls psd =
     concat (map (\<lambda>m. case f psd (LayerNode.id' m) of
                         None \<Rightarrow> []
                       | Some orig \<Rightarrow> [reconstructLayer f psd orig m]) ls)
   \<and> length (reconstructHierarchy f ls psd) =
       length (filter (\<lambda>m. f psd (LayerNode.id' m) \<noteq> None) ls)
   \<and> (finalChildren f reg slots cs acc = Inl e \<longrightarrow>
        (\<exists>p\<in>snd ` set slots. reg (sourceNodeId p) = None
            \<and> e = missingPsdMessage (sourceNodeId p)))"
  using reconstructHierarchy_concat [of f ls psd] length_reconstructHierarchy [of f ls psd]
    finalChildren_error [of f reg slots cs acc e]
  by blast

text \<open>
  The build fails for a missing source document; the reconstruction of the small
  instance against a document without layers yields no layer.
\<close>

theorem C2_missing_layer_skipped_witness:
  "finalChildren nothingFound Map.empty [(''BG'', demoPayload ''BG'' [])] [demoContainer ''BG''] []
     = Inl (missingPsdMessage ''load'')
   \<and> (\<exists>p\<in>snd ` set [(''BG'', demoPayload ''BG'' [])].
         (Map.empty :: unit PsdRegistry) (sourceNodeId p) = None
         \<and> missingPsdMessage ''load'' = missingPsdMessage (sourceNodeId p))
   \<and> length (reconstructHierarchy nothingFound (transformLayers demoEnv demoTree (Fin 0) (Fin 0))
        emptyPsd) = 0"
proof -
  have 1: "finalChildren nothingFound Map.empty [(''BG'', demoPayload ''BG'' [])]
      [demoContainer ''BG''] [] = Inl (missingPsdMessage ''load'')"
    by (simp add: demoContainer_def demoPayload_def)
  note inst = C2_missing_layer_skipped [of nothingFound
      "transformLayers demoEnv demoTree (Fin 0) (Fin 0)" emptyPsd Map.empty
      "[(''BG'', demoPayload ''BG'' [])]" "[demoContainer ''BG'']" "[]" "missingPsdMessage ''load''"]
  from inst 1 have 2: "\<exists>p\<in>snd ` set [(''BG'', demoPayload ''BG'' [])].
         (Map.empty :: unit PsdRegistry) (sourceNodeId p) = None
         \<and> missingPsdMessage ''load'' = missingPsdMessage (sourceNodeId p)"
    by blast
  from inst have "length (reconstructHierarchy nothingFound
        (transformLayers demoEnv demoTree (Fin 0) (Fin 0)) emptyPsd) =
      length (filter (\<lambda>m. nothingFound emptyPsd (LayerNode.id' m) \<noteq> None)
        (transformLayers demoEnv demoTree (Fin 0) (Fin 0)))"
    by blast
  then have 3: "length (reconstructHierarchy nothingFound
        (transformLayers demoEnv demoTree (Fin 0) (Fin 0)) emptyPsd) = 0"
    by (simp add: nothingFound_def)
  from 1 2 3 show ?thesis by blast
qed

text \<open>
  A lookup that finds nothing does not fail: the transformed small instance,
  reconstructed against a document without layers, is the empty list, and the export of
  the assembly succeeds with an empty container group.
\<close>

theorem C2_counterexample:
  "nothingFound emptyPsd ''E'' = None
   \<and> map LayerNode.id' (transformLayers demoEnv demoTree (Fin 0) (Fin 0)) = [''E'']
   \<and> reconstructHierarchy nothingFound (transformLayers demoEnv demoTree (Fin 0) (Fin 0)) emptyPsd
       = []
   \<and> handleExport nothingFound ''export'' soloEdges soloTemplates soloPayloads soloPsds =
       Some (Inr \<lparr>width = Fin 100, height = Fin 100,
                  children = Some [containerGroup (demoContainer ''BG'') []],
                  canvasState = None\<rparr>)"
proof -
  have r: "reconstructHierarchy nothingFound (transformLayers demoEnv demoTree (Fin 0) (Fin 0))
      emptyPsd = []"
    unfolding reconstructHierarchy_concat by (simp add: nothingFound_def)
  have i: "map LayerNode.id' (transformLayers demoEnv demoTree (Fin 0) (Fin 0)) = [''E'']"
    by (simp add: demoTree_def demoE_def)
  have f: "finalChildren nothingFound soloPsds
      [(''BG'', demoPayload ''BG'' (transformLayers demoEnv demoTree (Fin 0) (Fin 0)))]
      (containers (demoTemplate [''BG''])) [] =
      Inr [containerGroup (demoContainer ''BG'') []]"
    by (simp add: demoTemplate_def demoContainer_def demoPayload_def soloPsds_def r)
  have h: "handleExport nothingFound ''export'' soloEdges soloTemplates soloPayloads soloPsds =
       Some (Inr \<lparr>width = Fin 100, height = Fin 100,
                  children = Some [containerGroup (demoContainer ''BG'') []],
                  canvasState = None\<rparr>)"
    by (simp add: handleExport_def solo_template solo_assembled solo_connections f)
       (simp add: demoTemplate_def)
  from r i h show ?thesis by (simp add: nothingFound_def)
qed

end
